theory Spec2Isabelle
  imports Complex_Main
begin

section \<open>Audio diarization worker: the speech segmenter\<close>

text \<open>
  The worker (\<^verbatim>\<open>src/worker/main.py\<close>) computes every time stamp as
  \<^verbatim>\<open>frame * frame_duration / 1000\<close>: an exact integer product followed by one true
  division. The time stamps are modelled as the exact rationals of which the Python
  floats are the nearest doubles; the only comparison made on them, with the
  constant \<^verbatim>\<open>0.25\<close>, separates 8 frames (0.24 s) from 9 frames (0.27 s) and is not
  affected by the rounding. Where the embedding stage multiplies a time stamp, the
  rounding does matter, and the doubles are modelled exactly there.
\<close>

record segment =
  seg_start :: rat
  seg_end :: rat

definition frame_duration :: nat where
  "frame_duration = 30"

definition sr :: nat where
  "sr = 16000"

definition frame_size :: nat where
  "frame_size = sr * frame_duration div 1000"

text \<open>\<^verbatim>\<open>range(0, n, step)\<close> for a positive step.\<close>

definition py_range_step :: "nat \<Rightarrow> nat \<Rightarrow> nat list" where
  "py_range_step n step = map (\<lambda>k. k * step) [0..<(n + step - 1) div step]"

text \<open>Lines 109-114: the complete 30 ms frames of the buffer; a trailing partial frame
  is not appended.\<close>

definition split_frames :: "'a list \<Rightarrow> 'a list list" where
  "split_frames y =
     filter (\<lambda>frame. length frame = frame_size)
       (map (\<lambda>i. take frame_size (drop i y)) (py_range_step (length y) frame_size))"

text \<open>Lines 117-121: the indices of the frames the detector classifies as speech.\<close>

definition speech_indices :: "bool list \<Rightarrow> nat list" where
  "speech_indices cls = filter (\<lambda>i. cls ! i) [0..<length cls]"

definition frame_time :: "nat \<Rightarrow> rat" where
  "frame_time n = of_nat (n * frame_duration) / 1000"

text \<open>Lines 132-138 and 143-149: the candidate segment from \<open>start_frame\<close> to
  \<open>prev_frame\<close> is appended when it lasts at least 250 ms.\<close>

definition close_segment :: "nat \<Rightarrow> nat \<Rightarrow> segment list \<Rightarrow> segment list" where
  "close_segment start_frame prev_frame segments =
     (let end_time = frame_time (prev_frame + 1);
          start_time = frame_time start_frame
      in if end_time - start_time \<ge> 1 / 4
         then segments @ [\<lparr>seg_start = start_time, seg_end = end_time\<rparr>]
         else segments)"

text \<open>Lines 129-140: the loop over \<^verbatim>\<open>speech_frames[1:]\<close>, with its three variables.\<close>

fun merge_loop :: "nat \<Rightarrow> nat \<Rightarrow> segment list \<Rightarrow> nat list \<Rightarrow> nat \<times> nat \<times> segment list" where
  "merge_loop start_frame prev_frame segments [] = (start_frame, prev_frame, segments)"
| "merge_loop start_frame prev_frame segments (frame # rest) =
     (if int frame - int prev_frame > 1
      then merge_loop frame frame (close_segment start_frame prev_frame segments) rest
      else merge_loop start_frame frame segments rest)"

text \<open>Lines 124-151.\<close>

definition merge_segments :: "nat list \<Rightarrow> segment list" where
  "merge_segments speech_frames =
     (case speech_frames of
        [] \<Rightarrow> []
      | first # rest \<Rightarrow>
          (case merge_loop first first [] rest of
             (start_frame, prev_frame, segments) \<Rightarrow>
               close_segment start_frame prev_frame segments))"

text \<open>Lines 117-151, from the classification of the frames to the segments.\<close>

definition segments_of_classification :: "bool list \<Rightarrow> segment list" where
  "segments_of_classification cls = merge_segments (speech_indices cls)"

section \<open>Errors and external collaborators\<close>

text \<open>Every stage reports a failure as \<^verbatim>\<open>HTTPException(status_code, detail)\<close>; the
  handler of the endpoint builds its detail with \<^verbatim>\<open>str(e)\<close>, kept symbolic here.\<close>

datatype error = HTTPException nat detail
  and detail = Literal string | Str error

type_synonym path = string

type_synonym embedding = "rat list"

datatype fetch_outcome = FetchFailed | WriteFailed | Fetched

text \<open>
  What the libraries called by the worker do during one invocation. A value \<open>None\<close>
  stands for a raised exception.
  \<^item> \<open>fetch\<close>: \<^verbatim>\<open>requests.get\<close> and \<^verbatim>\<open>raise_for_status\<close> fail (\<open>FetchFailed\<close>), or
    the temporary file is created and writing the chunks fails (\<open>WriteFailed\<close>), or
    the download completes;
  \<^item> \<open>temp_name\<close>: the name \<^verbatim>\<open>tempfile.NamedTemporaryFile(delete=False, suffix='.wav')\<close> picks;
  \<^item> \<open>ffmpeg_ok\<close>: ffmpeg runs and its return code is 0 (it then has written its output);
  \<^item> \<open>librosa_load\<close>: the samples of the converted file, as 16-bit integers;
  \<^item> \<open>vad_is_speech\<close>: \<^verbatim>\<open>webrtcvad.Vad(2).is_speech\<close> on one frame;
  \<^item> \<open>preprocess_wav\<close>, \<open>voice_encoder\<close> (\<^verbatim>\<open>VoiceEncoder()\<close>, giving
    \<^verbatim>\<open>embed_utterance\<close>): resemblyzer;
  \<^item> \<open>fit_predict\<close>: \<^verbatim>\<open>AgglomerativeClustering(n_clusters=2, linkage='ward').fit_predict\<close>;
  \<^item> \<open>silhouette_score\<close>: \<^verbatim>\<open>sklearn.metrics.silhouette_score\<close>.
\<close>

record world =
  fetch :: fetch_outcome
  temp_name :: path
  ffmpeg_ok :: bool
  librosa_load :: "int list option"
  vad_is_speech :: "int list \<Rightarrow> bool option"
  preprocess_wav :: "rat list option"
  voice_encoder :: "(rat list \<Rightarrow> embedding option) option"
  fit_predict :: "embedding list \<Rightarrow> int list option"
  silhouette_score :: "embedding list \<Rightarrow> int list \<Rightarrow> rat option"

section \<open>Download and conversion\<close>

text \<open>The temporary files that exist are the state threaded through the endpoint.\<close>

definition download_audio :: "world \<Rightarrow> path set \<Rightarrow> (error + path) \<times> path set" where
  "download_audio w files =
     (case fetch w of
        FetchFailed \<Rightarrow>
          (Inl (HTTPException 400 (Literal ''Failed to download audio file'')), files)
      | WriteFailed \<Rightarrow>
          (Inl (HTTPException 400 (Literal ''Failed to download audio file'')),
           insert (temp_name w) files)
      | Fetched \<Rightarrow> (Inr (temp_name w), insert (temp_name w) files))"

text \<open>\<^verbatim>\<open>s.replace(old, new)\<close> for a non-empty \<open>old\<close>: every occurrence, left to right.\<close>

fun py_replace :: "string \<Rightarrow> string \<Rightarrow> string \<Rightarrow> string" where
  "py_replace [] old new = []"
| "py_replace (c # cs) old new =
     (if old \<noteq> [] \<and> take (length old) (c # cs) = old
      then new @ py_replace (drop (length old - 1) cs) old new
      else c # py_replace cs old new)"

definition convert_to_wav :: "world \<Rightarrow> path \<Rightarrow> path set \<Rightarrow> (error + path) \<times> path set" where
  "convert_to_wav w input_path files =
     (let output_path = py_replace input_path ''.wav'' ''_converted.wav''
      in if ffmpeg_ok w then (Inr output_path, insert output_path files)
         else (Inl (HTTPException 500 (Literal ''Audio conversion failed'')), files))"

section \<open>The stages\<close>

definition detect_speech_segments :: "world \<Rightarrow> error + segment list" where
  "detect_speech_segments w =
     (case librosa_load w of
        None \<Rightarrow> Inl (HTTPException 500 (Literal ''Speech detection failed''))
      | Some y \<Rightarrow>
          (case those (map (vad_is_speech w) (split_frames y)) of
             None \<Rightarrow> Inl (HTTPException 500 (Literal ''Speech detection failed''))
           | Some cls \<Rightarrow> Inr (segments_of_classification cls)))"

text \<open>\<^verbatim>\<open>int(x)\<close> truncates towards zero.\<close>

definition py_int :: "rat \<Rightarrow> int" where
  "py_int x = (if x < 0 then \<lceil>x\<rceil> else \<lfloor>x\<rfloor>)"

text \<open>\<^verbatim>\<open>xs[i:j]\<close>: a negative bound counts from the end, and both bounds are clipped to
  the length.\<close>

definition slice_bound :: "nat \<Rightarrow> int \<Rightarrow> nat" where
  "slice_bound n i = (if i < 0 then nat (max 0 (int n + i)) else min (nat i) n)"

definition py_slice :: "'a list \<Rightarrow> int \<Rightarrow> int \<Rightarrow> 'a list" where
  "py_slice xs i j =
     (let lo = slice_bound (length xs) i; hi = slice_bound (length xs) j
      in take (hi - lo) (drop lo xs))"

text \<open>
  Lines 167-168 multiply a time stamp by 16000 in double precision and truncate the
  product, and the product of a time stamp such as 2.01 with 16000 is not the exact one
  (\<^verbatim>\<open>int(2.01 * 16000)\<close> is 32159). The doubles are therefore modelled exactly, as the
  rationals they denote: \<open>to_double x\<close> is the IEEE 754 binary64 number nearest to
  \<open>x\<close>, ties to the even significand, with the subnormal numbers below
  \<open>2 ^ - 1022\<close>, and \<open>None\<close> where the result is an infinity.

  \<open>scale_down\<close> and \<open>scale_up\<close> bring the absolute value to \<open>m * 2 ^ e\<close> with
  \<open>2 ^ 52 \<le> m < 2 ^ 53\<close> (or \<open>e = - 1074\<close> for a subnormal number);
  \<open>round_half_even\<close> rounds the significand \<open>m\<close> to an integer.
\<close>

definition round_half_even :: "rat \<Rightarrow> int" where
  "round_half_even m =
     (let f = \<lfloor>m\<rfloor>; d = m - of_int f
      in if d < 1 / 2 then f else if 1 / 2 < d then f + 1 else if even f then f else f + 1)"

function scale_down :: "rat \<Rightarrow> int \<Rightarrow> rat \<times> int" where
  "scale_down m e = (if 2 ^ 53 \<le> m \<and> e < 972 then scale_down (m / 2) (e + 1) else (m, e))"
  by pat_completeness auto
termination
  by (relation "measure (\<lambda>(m, e). nat (972 - e))") auto

function scale_up :: "rat \<Rightarrow> int \<Rightarrow> rat \<times> int" where
  "scale_up m e = (if m < 2 ^ 52 \<and> - 1074 < e then scale_up (m * 2) (e - 1) else (m, e))"
  by pat_completeness auto
termination
  by (relation "measure (\<lambda>(m, e). nat (e + 1074))") auto

declare scale_down.simps [simp del] scale_up.simps [simp del]

definition to_double :: "rat \<Rightarrow> rat option" where
  "to_double x =
     (if x = 0 then Some 0
      else (case scale_down \<bar>x\<bar> 0 of (m1, e1) \<Rightarrow>
           (case scale_up m1 e1 of (m, e) \<Rightarrow>
              let r = round_half_even m;
                  y = (if 0 \<le> e then of_int r * 2 ^ nat e else of_int r / 2 ^ nat (- e))
              in if 2 ^ 1024 \<le> y then None else Some (if x < 0 then - y else y))))"

text \<open>\<^verbatim>\<open>int(t * 16000)\<close> for a time stamp \<open>t\<close>: the double of the time stamp, the
  rounded product, and its truncation; \<^verbatim>\<open>int\<close> of an infinity raises.\<close>

definition sample_index :: "rat \<Rightarrow> int option" where
  "sample_index t =
     (case to_double t of
        None \<Rightarrow> None
      | Some d \<Rightarrow>
          (case to_double (d * 16000) of
             None \<Rightarrow> None
           | Some product \<Rightarrow> Some (py_int product)))"

text \<open>Lines 167-171: the samples of one segment.\<close>

definition segment_wav :: "rat list \<Rightarrow> segment \<Rightarrow> rat list option" where
  "segment_wav wav segment =
     (case sample_index (seg_start segment) of
        None \<Rightarrow> None
      | Some start_sample \<Rightarrow>
          (case sample_index (seg_end segment) of
             None \<Rightarrow> None
           | Some end_sample \<Rightarrow> Some (py_slice wav start_sample end_sample)))"

text \<open>Lines 167-178: the embedding of one segment.\<close>

definition embed_segment :: "(rat list \<Rightarrow> embedding option) \<Rightarrow> rat list \<Rightarrow> segment \<Rightarrow> embedding option" where
  "embed_segment embed_utterance wav segment =
     (case segment_wav wav segment of
        None \<Rightarrow> None
      | Some samples \<Rightarrow>
          if length samples > 0 then embed_utterance samples
          else Some (replicate 256 0))"

definition extract_embeddings :: "world \<Rightarrow> segment list \<Rightarrow> error + embedding list" where
  "extract_embeddings w segments =
     (case preprocess_wav w of
        None \<Rightarrow> Inl (HTTPException 500 (Literal ''Embedding extraction failed''))
      | Some wav \<Rightarrow>
          (case voice_encoder w of
             None \<Rightarrow> Inl (HTTPException 500 (Literal ''Embedding extraction failed''))
           | Some embed_utterance \<Rightarrow>
               (case those (map (embed_segment embed_utterance wav) segments) of
                  None \<Rightarrow> Inl (HTTPException 500 (Literal ''Embedding extraction failed''))
                | Some embeddings \<Rightarrow> Inr embeddings)))"

definition cluster_speakers :: "world \<Rightarrow> embedding list \<Rightarrow> error + int list" where
  "cluster_speakers w embeddings =
     (if length embeddings < 2 then Inr (replicate (length embeddings) 0)
      else (case fit_predict w embeddings of
              None \<Rightarrow> Inl (HTTPException 500 (Literal ''Speaker clustering failed''))
            | Some labels \<Rightarrow> Inr labels))"

definition calculate_confidence :: "world \<Rightarrow> embedding list \<Rightarrow> int list \<Rightarrow> rat" where
  "calculate_confidence w embeddings labels =
     (if length embeddings < 2 then 0
      else if length (remdups labels) > 1
      then (case silhouette_score w embeddings labels of
              None \<Rightarrow> 0
            | Some score \<Rightarrow> max 0 score)
      else 0)"

section \<open>The endpoint\<close>

record diarization_segment =
  dstart :: rat
  dend :: rat
  speaker :: string
  dtext :: string

datatype debug_value = DebugStr string | DebugInt nat

record diarization_response =
  diarizedSegments :: "diarization_segment list"
  speakerCount :: nat
  confidence :: rat
  debug :: "(string \<times> debug_value) list"

text \<open>The decimal digits of an integer, as the f-string of line 262 prints them.\<close>

fun str_nat :: "nat \<Rightarrow> string" where
  "str_nat n =
     (if n < 10 then [''0123456789'' ! n]
      else str_nat (n div 10) @ [''0123456789'' ! (n mod 10)])"

definition str_int :: "int \<Rightarrow> string" where
  "str_int i = (if i < 0 then CHR ''-'' # str_nat (nat (- i)) else str_nat (nat i))"

text \<open>Lines 258-264: one diarized segment.\<close>

definition diarized_segment :: "int list \<Rightarrow> nat \<Rightarrow> segment \<Rightarrow> diarization_segment" where
  "diarized_segment speaker_labels i segment =
     (let speaker_label = (if i < length speaker_labels then speaker_labels ! i else 0)
      in \<lparr>dstart = seg_start segment, dend = seg_end segment,
          speaker = ''Speaker '' @ str_int (speaker_label + 1), dtext = []\<rparr>)"

text \<open>\<^verbatim>\<open>os.unlink\<close> raises when the file does not exist.\<close>

definition unlink :: "path \<Rightarrow> path set \<Rightarrow> path set option" where
  "unlink p files = (if p \<in> files then Some (files - {p}) else None)"

text \<open>Lines 267-271: the second file is not unlinked when the first unlink raises.\<close>

definition clean_up :: "path \<Rightarrow> path \<Rightarrow> path set \<Rightarrow> path set" where
  "clean_up audio_path wav_path files =
     (case unlink audio_path files of
        None \<Rightarrow> files
      | Some files1 \<Rightarrow>
          (case unlink wav_path files1 of
             None \<Rightarrow> files1
           | Some files2 \<Rightarrow> files2))"

text \<open>Lines 284-286.\<close>

definition pipeline_failure :: "error \<Rightarrow> error" where
  "pipeline_failure e = HTTPException 500 (Str e)"

definition diarize_audio :: "world \<Rightarrow> path set \<Rightarrow> (error + diarization_response) \<times> path set" where
  "diarize_audio w files =
     (case download_audio w files of
        (Inl e, files1) \<Rightarrow> (Inl (pipeline_failure e), files1)
      | (Inr audio_path, files1) \<Rightarrow>
     (case convert_to_wav w audio_path files1 of
        (Inl e, files2) \<Rightarrow> (Inl (pipeline_failure e), files2)
      | (Inr wav_path, files2) \<Rightarrow>
     (case detect_speech_segments w of
        Inl e \<Rightarrow> (Inl (pipeline_failure e), files2)
      | Inr speech_segments \<Rightarrow>
          if speech_segments = []
          then (Inr \<lparr>diarizedSegments = [], speakerCount = 0, confidence = 0,
                     debug = [(''message'', DebugStr ''No speech detected'')]\<rparr>, files2)
          else
     (case extract_embeddings w speech_segments of
        Inl e \<Rightarrow> (Inl (pipeline_failure e), files2)
      | Inr embeddings \<Rightarrow>
     (case cluster_speakers w embeddings of
        Inl e \<Rightarrow> (Inl (pipeline_failure e), files2)
      | Inr speaker_labels \<Rightarrow>
          (let confidence = calculate_confidence w embeddings speaker_labels;
               diarized_segments =
                 map (\<lambda>(i, segment). diarized_segment speaker_labels i segment)
                   (enumerate 0 speech_segments);
               files3 = clean_up audio_path wav_path files2
           in (Inr \<lparr>diarizedSegments = diarized_segments,
                     speakerCount = length (remdups speaker_labels),
                     confidence = confidence,
                     debug = [(''speech_segments_count'', DebugInt (length speech_segments)),
                              (''embeddings_count'', DebugInt (length embeddings)),
                              (''processing_time'', DebugStr ''mock'')]\<rparr>, files3)))))))"

section \<open>Concrete runs\<close>

text \<open>A buffer whose frames are all ones or all zeros, a detector that answers by the
  first sample of the frame, and libraries that succeed: the run on which the
  theorems below are instantiated.\<close>

definition buffer_of :: "bool list \<Rightarrow> int list" where
  "buffer_of cls = concat (map (\<lambda>b. replicate frame_size (if b then 1 else 0)) cls)"

definition run_of :: "bool list \<Rightarrow> world" where
  "run_of cls =
     \<lparr>fetch = Fetched, temp_name = ''/tmp/tmpk3v9.wav'', ffmpeg_ok = True,
      librosa_load = Some (buffer_of cls),
      vad_is_speech = (\<lambda>frame. Some (hd frame = 1)),
      preprocess_wav = Some (replicate 16000 0),
      voice_encoder = Some (\<lambda>samples. Some (replicate 256 (of_nat (length samples)))),
      fit_predict = (\<lambda>X. Some (map (\<lambda>i. int (i mod 2)) [0..<length X])),
      silhouette_score = (\<lambda>X labels. Some (1 / 2))\<rparr>"

text \<open>A classification with two runs of speech, of 9 and of 12 frames, and the
  segments and embeddings of the run built on it.\<close>

definition two_runs :: "bool list" where
  "two_runs = replicate 9 True @ replicate 2 False @ replicate 12 True"

definition two_segments :: "segment list" where
  "two_segments =
     [\<lparr>seg_start = 0, seg_end = 27 / 100\<rparr>, \<lparr>seg_start = 33 / 100, seg_end = 69 / 100\<rparr>]"

definition two_embeddings :: "embedding list" where
  "two_embeddings = [replicate 256 4320, replicate 256 5760]"

section \<open>Properties of segment lists\<close>

text \<open>\<open>separated s t\<close>: \<open>s\<close> starts before \<open>t\<close> and ends no later than \<open>t\<close> starts.\<close>

definition separated :: "segment \<Rightarrow> segment \<Rightarrow> bool" where
  "separated s t \<longleftrightarrow> seg_start s < seg_start t \<and> seg_end s \<le> seg_start t"

text \<open>The invariant of the merging loop: the segments appended so far are pairwise
  separated, none is empty, and all of them end by the time \<open>t\<close>.\<close>

definition closed_before :: "rat \<Rightarrow> segment list \<Rightarrow> bool" where
  "closed_before t segments \<longleftrightarrow>
     sorted_wrt separated segments \<and>
     list_all (\<lambda>s. seg_start s < seg_end s \<and> seg_end s \<le> t) segments"

definition long_enough :: "segment \<Rightarrow> bool" where
  "long_enough s \<longleftrightarrow> seg_end s - seg_start s \<ge> 1 / 4"

section \<open>The segmenter: lemmas\<close>


lemma speech_indices_append:
  "speech_indices (xs @ ys) = speech_indices xs @ map (\<lambda>i. i + length xs) (speech_indices ys)"
proof -
  have a: "filter (\<lambda>i. (xs @ ys) ! i) [0..<length xs] = filter (\<lambda>i. xs ! i) [0..<length xs]"
    by (rule filter_cong) (auto simp: nth_append)
  have m: "[length xs..<length xs + length ys] = map (\<lambda>i. i + length xs) [0..<length ys]"
    by (simp add: map_add_upt add.commute)
  have b: "filter (\<lambda>i. (xs @ ys) ! i) [length xs..<length xs + length ys]
      = map (\<lambda>i. i + length xs) (filter (\<lambda>i. ys ! i) [0..<length ys])"
    unfolding m filter_map by (simp add: comp_def nth_append add.commute)
  have "[0..<length (xs @ ys)] = [0..<length xs] @ [length xs..<length xs + length ys]"
    using upt_add_eq_append [of 0 "length xs" "length ys"] by simp
  then have "speech_indices (xs @ ys) = filter (\<lambda>i. (xs @ ys) ! i) [0..<length xs]
       @ filter (\<lambda>i. (xs @ ys) ! i) [length xs..<length xs + length ys]"
    unfolding speech_indices_def by (simp only: filter_append)
  then show ?thesis
    unfolding a b speech_indices_def .
qed

lemma speech_indices_True: "speech_indices (replicate n True) = [0..<n]"
  unfolding speech_indices_def by (simp add: filter_id_conv)

lemma speech_indices_False: "speech_indices (replicate n False) = []"
  unfolding speech_indices_def by (simp add: filter_empty_conv)

lemma merge_loop_run:
  "merge_loop start_frame prev_frame segments ([Suc prev_frame..<Suc prev_frame + k] @ rest)
     = merge_loop start_frame (prev_frame + k) segments rest"
proof (induction k arbitrary: prev_frame)
  case 0
  show ?case by simp
next
  case (Suc k)
  have "[Suc prev_frame..<Suc prev_frame + Suc k] = Suc prev_frame # [Suc (Suc prev_frame)..<Suc (Suc prev_frame) + k]"
    by (simp add: upt_conv_Cons)
  then show ?case using Suc.IH [of "Suc prev_frame"] by simp
qed

lemma merge_loop_gap:
  "prev_frame + 1 < frame \<Longrightarrow>
   merge_loop start_frame prev_frame segments (frame # rest)
     = merge_loop frame frame (close_segment start_frame prev_frame segments) rest"
  by simp

lemma merge_segments_run:
  "a < b \<Longrightarrow> merge_segments [a..<b] = close_segment a (b - 1) []"
proof -
  assume ab: "a < b"
  then have "[a..<b] = a # ([Suc a..<Suc a + (b - Suc a)] @ [])" by (simp add: upt_conv_Cons)
  then show ?thesis
    unfolding merge_segments_def using merge_loop_run [of a a "[]" "b - Suc a" "[]"] ab by simp
qed

lemma merge_segments_two_runs:
  assumes "a < b" "b < c" "c < d"
  shows "merge_segments ([a..<b] @ [c..<d]) = close_segment c (d - 1) (close_segment a (b - 1) [])"
proof -
  have l1: "[a..<b] = a # [Suc a..<Suc a + (b - Suc a)]" using assms by (simp add: upt_conv_Cons)
  have l2: "[c..<d] = c # ([Suc c..<Suc c + (d - Suc c)] @ [])" using assms by (simp add: upt_conv_Cons)
  have "merge_loop a a [] ([Suc a..<Suc a + (b - Suc a)] @ [c..<d]) = merge_loop a (a + (b - Suc a)) [] [c..<d]"
    by (rule merge_loop_run)
  also have "a + (b - Suc a) = b - 1" using assms by simp
  also have "merge_loop a (b - 1) [] [c..<d] = merge_loop c c (close_segment a (b - 1) []) ([Suc c..<Suc c + (d - Suc c)] @ [])"
    using assms by (subst l2) simp
  also have "\<dots> = merge_loop c (c + (d - Suc c)) (close_segment a (b - 1) []) []"
    by (rule merge_loop_run)
  also have "c + (d - Suc c) = d - 1" using assms by simp
  finally have "merge_loop a a [] ([Suc a..<Suc a + (b - Suc a)] @ [c..<d]) = (c, d - 1, close_segment a (b - 1) [])"
    by simp
  then show ?thesis unfolding merge_segments_def by (subst l1) simp
qed



lemma frame_size_480: "frame_size = 480"
  by (simp add: frame_size_def sr_def frame_duration_def)

lemma py_range_step_shift:
  "0 < step \<Longrightarrow> py_range_step (step + n) step = 0 # map (\<lambda>i. i + step) (py_range_step n step)"
proof -
  assume s: "0 < step"
  define m where "m = n + step - 1"
  have "step + n + step - 1 = m + step" using s by (simp add: m_def)
  then have "(step + n + step - 1) div step = Suc (m div step)"
    using s by simp
  then have "(step + n + step - 1) div step = Suc ((n + step - 1) div step)"
    by (simp only: m_def)
  then show ?thesis
    unfolding py_range_step_def
    by (simp add: upt_conv_Cons map_Suc_upt [symmetric] comp_def del: upt_Suc)
qed

lemma split_frames_Cons:
  assumes "length f = frame_size"
  shows "split_frames (f @ ys) = f # split_frames ys"
proof -
  have pos: "0 < frame_size" by (simp add: frame_size_480)
  have "py_range_step (length (f @ ys)) frame_size
      = 0 # map (\<lambda>i. i + frame_size) (py_range_step (length ys) frame_size)"
    using py_range_step_shift [OF pos, of "length ys"] assms by simp
  then show ?thesis
    unfolding split_frames_def using assms by (simp add: comp_def)
qed

lemma split_frames_Nil: "split_frames [] = []"
  by (simp add: split_frames_def py_range_step_def frame_size_480)

lemma split_frames_buffer_of:
  "split_frames (buffer_of cls) = map (\<lambda>b. replicate frame_size (if b then 1 else 0)) cls"
  by (induction cls) (simp_all add: buffer_of_def split_frames_Nil split_frames_Cons)

lemma those_map_Some: "those (map (\<lambda>x. Some (f x)) xs) = Some (map f xs)"
  by (induction xs) simp_all

lemma classification_run_of:
  "those (map (vad_is_speech (run_of cls)) (split_frames (buffer_of cls))) = Some cls"
proof -
  have "map (\<lambda>b. hd (replicate frame_size (if b then 1 else 0 :: int)) = 1) cls = cls"
    by (induction cls) (simp_all add: frame_size_480)
  then show ?thesis
    by (simp add: run_of_def split_frames_buffer_of those_map_Some comp_def)
qed

lemma detect_run_of: "detect_speech_segments (run_of cls) = Inr (segments_of_classification cls)"
  using classification_run_of [of cls]
  by (simp add: detect_speech_segments_def) (simp add: run_of_def)



lemma frame_time_mono: "a \<le> b \<Longrightarrow> frame_time a \<le> frame_time b"
  by (simp add: frame_time_def frame_duration_def divide_right_mono)

lemma frame_time_diff:
  "a \<le> b \<Longrightarrow> frame_time b - frame_time a = of_nat (b - a) * 3 / 100"
  by (simp add: frame_time_def frame_duration_def of_nat_diff field_simps)

lemma long_enough_iff:
  assumes "a \<le> b"
  shows "frame_time b - frame_time a \<ge> 1 / 4 \<longleftrightarrow> 9 \<le> b - a"
proof -
  have "(1 / 4 \<le> (of_nat (b - a) :: rat) * 3 / 100) \<longleftrightarrow> (of_nat 25 :: rat) \<le> of_nat (3 * (b - a))"
    by (simp add: field_simps)
  also have "\<dots> \<longleftrightarrow> 25 \<le> 3 * (b - a)"
    by (simp only: of_nat_le_iff)
  also have "\<dots> \<longleftrightarrow> 9 \<le> b - a" by arith
  finally show ?thesis using assms by (simp add: frame_time_diff)
qed

lemma close_segment_frames:
  assumes "start_frame \<le> prev_frame"
  shows "close_segment start_frame prev_frame segments =
     segments @ (if 9 \<le> prev_frame + 1 - start_frame
                 then [\<lparr>seg_start = frame_time start_frame, seg_end = frame_time (prev_frame + 1)\<rparr>]
                 else [])"
proof -
  have "start_frame \<le> prev_frame + 1" using assms by simp
  from long_enough_iff [OF this] show ?thesis
    unfolding close_segment_def Let_def by simp
qed

lemma closed_before_mono: "closed_before t segments \<Longrightarrow> t \<le> u \<Longrightarrow> closed_before u segments"
  unfolding closed_before_def list_all_iff by fastforce

lemma closed_before_close_segment:
  assumes cb: "closed_before (frame_time start_frame) segments"
    and le: "start_frame \<le> prev_frame" and gap: "prev_frame + 1 \<le> frame"
  shows "closed_before (frame_time frame) (close_segment start_frame prev_frame segments)"
proof (cases "frame_time (prev_frame + 1) - frame_time start_frame \<ge> 1 / 4")
  case False
  have "frame_time start_frame \<le> frame_time frame"
    using le gap by (intro frame_time_mono) simp
  with cb have "closed_before (frame_time frame) segments"
    by (rule closed_before_mono)
  with False show ?thesis by (simp add: close_segment_def)
next
  case True
  let ?s = "\<lparr>seg_start = frame_time start_frame, seg_end = frame_time (prev_frame + 1)\<rparr>"
  have e: "frame_time (prev_frame + 1) \<le> frame_time frame"
    using gap by (rule frame_time_mono)
  have lt: "frame_time start_frame < frame_time (prev_frame + 1)"
    using True by simp
  have old: "\<forall>x\<in>set segments. separated x ?s"
    using cb unfolding closed_before_def list_all_iff separated_def by fastforce
  have "frame_time start_frame \<le> frame_time frame" using lt e by simp
  with cb have m: "closed_before (frame_time frame) segments"
    by (rule closed_before_mono)
  have "closed_before (frame_time frame) (segments @ [?s])"
    using m old lt e unfolding closed_before_def by (simp add: sorted_wrt_append)
  with True show ?thesis by (simp add: close_segment_def)
qed

lemma merge_loop_closed_before:
  assumes "sorted_wrt (<) (prev_frame # rest)" "start_frame \<le> prev_frame"
    "closed_before (frame_time start_frame) segments"
    "merge_loop start_frame prev_frame segments rest = (start_frame', prev_frame', segments')"
  shows "start_frame' \<le> prev_frame' \<and> closed_before (frame_time start_frame') segments'"
  using assms
proof (induction rest arbitrary: start_frame prev_frame segments)
  case Nil
  then show ?case by simp
next
  case (Cons frame rest)
  have lt: "prev_frame < frame" and srt: "sorted_wrt (<) (frame # rest)"
    using Cons.prems(1) by simp_all
  show ?case
  proof (cases "int frame - int prev_frame > 1")
    case True
    then have "prev_frame + 1 \<le> frame" by simp
    with Cons.prems(2,3) have "closed_before (frame_time frame) (close_segment start_frame prev_frame segments)"
      by (intro closed_before_close_segment)
    moreover have "merge_loop frame frame (close_segment start_frame prev_frame segments) rest
        = (start_frame', prev_frame', segments')"
      using Cons.prems(4) True by simp
    ultimately show ?thesis using Cons.IH [OF srt] by blast
  next
    case False
    then have "merge_loop start_frame frame segments rest = (start_frame', prev_frame', segments')"
      using Cons.prems(4) by simp
    moreover have "start_frame \<le> frame" using Cons.prems(2) lt by simp
    ultimately show ?thesis using Cons.IH [OF srt] Cons.prems(3) by blast
  qed
qed

lemma sorted_speech_indices: "sorted_wrt (<) (speech_indices cls)"
  unfolding speech_indices_def by (rule sorted_wrt_filter) simp

lemma closed_before_Nil: "closed_before t []"
  by (simp add: closed_before_def)

lemma merge_segments_separated:
  assumes "sorted_wrt (<) speech_frames"
  shows "sorted_wrt separated (merge_segments speech_frames)"
proof (cases speech_frames)
  case Nil
  then show ?thesis by (simp add: merge_segments_def)
next
  case (Cons first rest)
  obtain sf pf segs where m: "merge_loop first first [] rest = (sf, pf, segs)"
    by (cases "merge_loop first first [] rest") auto
  have "sf \<le> pf \<and> closed_before (frame_time sf) segs"
    using assms Cons closed_before_Nil m
    by (intro merge_loop_closed_before [of first rest first "[]"]) simp_all
  then have "closed_before (frame_time (pf + 1)) (close_segment sf pf segs)"
    by (intro closed_before_close_segment) simp_all
  then show ?thesis using Cons m by (simp add: merge_segments_def closed_before_def)
qed

lemma close_segment_long:
  "list_all long_enough segments \<Longrightarrow> list_all long_enough (close_segment start_frame prev_frame segments)"
  unfolding close_segment_def Let_def long_enough_def by simp

lemma merge_loop_long:
  "list_all long_enough segments \<Longrightarrow>
   list_all long_enough (snd (snd (merge_loop start_frame prev_frame segments rest)))"
  by (induction rest arbitrary: start_frame prev_frame segments) (simp_all add: close_segment_long)

lemma merge_segments_long: "list_all long_enough (merge_segments speech_frames)"
proof (cases speech_frames)
  case Nil
  then show ?thesis by (simp add: merge_segments_def)
next
  case (Cons first rest)
  have "list_all long_enough (snd (snd (merge_loop first first [] rest)))"
    by (rule merge_loop_long) simp
  then show ?thesis using Cons
    by (cases "merge_loop first first [] rest") (simp add: merge_segments_def close_segment_long)
qed

lemma detect_speech_segments_Inr:
  "detect_speech_segments w = Inr segments \<Longrightarrow>
   \<exists>y cls. librosa_load w = Some y \<and> those (map (vad_is_speech w) (split_frames y)) = Some cls
     \<and> segments = segments_of_classification cls"
  by (auto simp: detect_speech_segments_def split: option.splits)

lemma map_add_upt_from: "map (\<lambda>i. i + n) [a..<b] = [a + n..<b + n]"
  by (induction b) simp_all

lemma speech_indices_runs:
  "speech_indices (replicate a False @ replicate n True @ replicate g False @ replicate m True @ replicate k False)
     = [a..<a + n] @ [a + n + g..<a + n + g + m]"
proof -
  have 1: "speech_indices (replicate m True @ replicate k False) = [0..<m]"
    by (simp only: speech_indices_append speech_indices_True speech_indices_False list.map append_Nil2)
  have 2: "speech_indices (replicate g False @ replicate m True @ replicate k False) = [g..<g + m]"
    by (simp only: speech_indices_append [of "replicate g False"] speech_indices_False 1
        append_Nil length_replicate map_add_upt) (simp add: add.commute)
  have 3: "speech_indices (replicate n True @ replicate g False @ replicate m True @ replicate k False)
      = [0..<n] @ [n + g..<n + g + m]"
    by (simp only: speech_indices_append [of "replicate n True"] speech_indices_True 2
        length_replicate map_add_upt_from) (simp add: add.commute add.left_commute)
  show ?thesis
    by (simp only: speech_indices_append [of "replicate a False"] speech_indices_False 3
        append_Nil length_replicate map_append map_add_upt_from) (simp add: add.commute add.left_commute)
qed

lemma segments_two_runs:
  assumes "0 < n" "0 < g" "0 < m"
  shows "segments_of_classification
      (replicate a False @ replicate n True @ replicate g False @ replicate m True @ replicate k False)
    = close_segment (a + n + g) (a + n + g + m - 1) (close_segment a (a + n - 1) [])"
  unfolding segments_of_classification_def speech_indices_runs
  using assms by (intro merge_segments_two_runs) simp_all

lemma segments_one_run:
  assumes "0 < n"
  shows "segments_of_classification (replicate a False @ replicate n True @ replicate k False)
    = close_segment a (a + n - 1) []"
proof -
  have "speech_indices (replicate a False @ replicate n True @ replicate 0 False @ replicate 0 True @ replicate k False)
      = [a..<a + n] @ [a + n + 0..<a + n + 0 + 0]"
    by (rule speech_indices_runs)
  then have "speech_indices (replicate a False @ replicate n True @ replicate k False) = [a..<a + n]"
    by simp
  then show ?thesis
    unfolding segments_of_classification_def using assms by (simp add: merge_segments_run)
qed

lemma detect_classified:
  "librosa_load w = Some y \<Longrightarrow> those (map (vad_is_speech w) (split_frames y)) = Some cls \<Longrightarrow>
   detect_speech_segments w = Inr (segments_of_classification cls)"
  by (simp add: detect_speech_segments_def)

section \<open>The claims about the segmenter\<close>

text \<open>
  C8. For a 16 kHz input whose 30 ms frames are classified speech for frames 0 to 66,
  non-speech for frames 67 to 99 and speech for frames 100 to 166, the segmenter returns
  exactly the two segments [0.000, 2.010] and [3.000, 5.010] seconds, each with
  start = firstFrame * 0.030 and end = (lastFrame + 1) * 0.030.
\<close>

theorem C8_two_segments:
  assumes "librosa_load w = Some y"
    and "those (map (vad_is_speech w) (split_frames y))
           = Some (replicate 67 True @ replicate 33 False @ replicate 67 True)"
  shows "detect_speech_segments w =
           Inr [\<lparr>seg_start = 0, seg_end = 201 / 100\<rparr>, \<lparr>seg_start = 3, seg_end = 501 / 100\<rparr>]
         \<and> frame_time 0 = 0 \<and> frame_time (66 + 1) = 201 / 100
         \<and> frame_time 100 = 3 \<and> frame_time (166 + 1) = 501 / 100"
proof -
  have "segments_of_classification
      (replicate 0 False @ replicate 67 True @ replicate 33 False @ replicate 67 True @ replicate 0 False)
      = close_segment (0 + 67 + 33) (0 + 67 + 33 + 67 - 1) (close_segment 0 (0 + 67 - 1) [])"
    by (rule segments_two_runs) simp_all
  then have "segments_of_classification (replicate 67 True @ replicate 33 False @ replicate 67 True)
      = [\<lparr>seg_start = 0, seg_end = 201 / 100\<rparr>, \<lparr>seg_start = 3, seg_end = 501 / 100\<rparr>]"
    by (simp add: close_segment_frames frame_time_def frame_duration_def)
  then show ?thesis
    using detect_classified [OF assms] by (simp add: frame_time_def frame_duration_def)
qed

theorem C8_two_segments_witness:
  "librosa_load (run_of (replicate 67 True @ replicate 33 False @ replicate 67 True))
     = Some (buffer_of (replicate 67 True @ replicate 33 False @ replicate 67 True))
   \<and> those (map (vad_is_speech (run_of (replicate 67 True @ replicate 33 False @ replicate 67 True)))
        (split_frames (buffer_of (replicate 67 True @ replicate 33 False @ replicate 67 True))))
     = Some (replicate 67 True @ replicate 33 False @ replicate 67 True)
   \<and> detect_speech_segments (run_of (replicate 67 True @ replicate 33 False @ replicate 67 True))
     = Inr [\<lparr>seg_start = 0, seg_end = 201 / 100\<rparr>, \<lparr>seg_start = 3, seg_end = 501 / 100\<rparr>]"
proof -
  let ?c = "replicate 67 True @ replicate 33 False @ replicate 67 True"
  have l: "librosa_load (run_of ?c) = Some (buffer_of ?c)"
    by (simp add: run_of_def)
  have v: "those (map (vad_is_speech (run_of ?c)) (split_frames (buffer_of ?c))) = Some ?c"
    by (rule classification_run_of)
  from C8_two_segments [OF l v] l v show ?thesis by blast
qed

text \<open>
  C1 as stated (a gap of exactly one non-speech frame does not break a segment) fails on
  the code: the test \<^verbatim>\<open>frame - prev_frame > 1\<close> of line 130 compares indices of speech
  frames, so it holds as soon as one non-speech frame lies between them. With speech at
  frames 0 to 10, a gap at frame 11 and speech at frames 12 to 20, both runs pass the
  minimum duration and two segments are returned, not the merged one.
\<close>

theorem C1_gap_counterexample:
  "detect_speech_segments (run_of (replicate 11 True @ [False] @ replicate 9 True))
     = Inr [\<lparr>seg_start = 0, seg_end = 33 / 100\<rparr>, \<lparr>seg_start = 9 / 25, seg_end = 63 / 100\<rparr>]
   \<and> detect_speech_segments (run_of (replicate 11 True @ [False] @ replicate 9 True))
     \<noteq> Inr [\<lparr>seg_start = 0, seg_end = 63 / 100\<rparr>]"
proof -
  have "segments_of_classification
      (replicate 0 False @ replicate 11 True @ replicate 1 False @ replicate 9 True @ replicate 0 False)
      = close_segment (0 + 11 + 1) (0 + 11 + 1 + 9 - 1) (close_segment 0 (0 + 11 - 1) [])"
    by (rule segments_two_runs) simp_all
  then have "segments_of_classification (replicate 11 True @ [False] @ replicate 9 True)
      = [\<lparr>seg_start = 0, seg_end = 33 / 100\<rparr>, \<lparr>seg_start = 9 / 25, seg_end = 63 / 100\<rparr>]"
    by (simp add: close_segment_frames frame_time_def frame_duration_def)
  then show ?thesis by (simp add: detect_run_of)
qed

text \<open>
  C1, amended. Only contiguous speech frames are merged: with speech at frames \<open>a\<close> to
  \<open>b\<close>, non-speech at frame \<open>b + 1\<close> and speech at frames \<open>b + 2\<close> to \<open>c\<close> (and no
  other speech), the single-frame gap breaks the run, and the segmenter returns the
  two runs as separate segments, each one if and only if it has at least 9 frames
  (0.27 s, the first multiple of 30 ms that reaches 0.25 s).
\<close>

theorem C1_gap_breaks_segment:
  assumes "librosa_load w = Some y"
    and "those (map (vad_is_speech w) (split_frames y))
           = Some (replicate a False @ replicate (b + 1 - a) True @ [False]
                   @ replicate (c - (b + 1)) True @ replicate k False)"
    and "a \<le> b" and "b + 2 \<le> c"
  shows "detect_speech_segments w =
           Inr ((if 9 \<le> b + 1 - a
                 then [\<lparr>seg_start = frame_time a, seg_end = frame_time (b + 1)\<rparr>] else [])
                @ (if 9 \<le> c - (b + 1)
                   then [\<lparr>seg_start = frame_time (b + 2), seg_end = frame_time (c + 1)\<rparr>] else []))"
proof -
  let ?n = "b + 1 - a" and ?m = "c - (b + 1)"
  have "segments_of_classification
      (replicate a False @ replicate ?n True @ replicate 1 False @ replicate ?m True @ replicate k False)
      = close_segment (a + ?n + 1) (a + ?n + 1 + ?m - 1) (close_segment a (a + ?n - 1) [])"
    using assms(3,4) by (intro segments_two_runs) simp_all
  moreover have "a + ?n + 1 = b + 2" "a + ?n + 1 + ?m - 1 = c" "a + ?n - 1 = b"
    using assms(3,4) by simp_all
  ultimately have "segments_of_classification
      (replicate a False @ replicate ?n True @ [False] @ replicate ?m True @ replicate k False)
      = close_segment (b + 2) c (close_segment a b [])"
    by simp
  moreover have "c + 1 - (b + 2) = c - (b + 1)" by simp
  ultimately show ?thesis
    using detect_classified [OF assms(1,2)] assms(3,4)
    by (simp add: close_segment_frames)
qed

theorem C1_gap_breaks_segment_witness:
  "librosa_load (run_of (replicate 11 True @ [False] @ replicate 9 True))
     = Some (buffer_of (replicate 11 True @ [False] @ replicate 9 True))
   \<and> those (map (vad_is_speech (run_of (replicate 11 True @ [False] @ replicate 9 True)))
        (split_frames (buffer_of (replicate 11 True @ [False] @ replicate 9 True))))
     = Some (replicate 0 False @ replicate (10 + 1 - 0) True @ [False]
             @ replicate (20 - (10 + 1)) True @ replicate 0 False)
   \<and> (0::nat) \<le> 10 \<and> (10::nat) + 2 \<le> 20
   \<and> detect_speech_segments (run_of (replicate 11 True @ [False] @ replicate 9 True))
     = Inr [\<lparr>seg_start = frame_time 0, seg_end = frame_time 11\<rparr>,
            \<lparr>seg_start = frame_time 12, seg_end = frame_time 21\<rparr>]"
proof -
  let ?c = "replicate 11 True @ [False] @ replicate 9 True"
  have l: "librosa_load (run_of ?c) = Some (buffer_of ?c)"
    by (simp add: run_of_def)
  have "those (map (vad_is_speech (run_of ?c)) (split_frames (buffer_of ?c))) = Some ?c"
    by (rule classification_run_of)
  then have v: "those (map (vad_is_speech (run_of ?c)) (split_frames (buffer_of ?c)))
      = Some (replicate 0 False @ replicate (10 + 1 - 0) True @ [False]
              @ replicate (20 - (10 + 1)) True @ replicate 0 False)"
    by simp
  have "(0::nat) \<le> 10" "(10::nat) + 2 \<le> 20" by simp_all
  from C1_gap_breaks_segment [OF l v this] l v show ?thesis by simp
qed

text \<open>
  C6. For every input, the segment list returned by \<^verbatim>\<open>detect_speech_segments\<close> is
  sorted strictly ascending by start time and pairwise non-overlapping: of any two
  segments of the list, the earlier one starts before the later one and ends no later
  than the later one starts.
\<close>

theorem C6_sorted_non_overlapping:
  assumes "detect_speech_segments w = Inr segments"
  shows "sorted_wrt separated segments"
proof -
  from detect_speech_segments_Inr [OF assms] obtain cls
    where "segments = segments_of_classification cls" by blast
  then show ?thesis
    unfolding segments_of_classification_def
    by (simp add: merge_segments_separated sorted_speech_indices)
qed

theorem C6_sorted_non_overlapping_witness:
  "detect_speech_segments (run_of (replicate 9 True @ replicate 2 False @ replicate 12 True))
     = Inr [\<lparr>seg_start = 0, seg_end = 27 / 100\<rparr>, \<lparr>seg_start = 33 / 100, seg_end = 69 / 100\<rparr>]
   \<and> sorted_wrt separated
        [\<lparr>seg_start = 0, seg_end = 27 / 100\<rparr>, \<lparr>seg_start = 33 / 100, seg_end = 69 / 100\<rparr>]"
proof -
  have "segments_of_classification
      (replicate 0 False @ replicate 9 True @ replicate 2 False @ replicate 12 True @ replicate 0 False)
      = close_segment (0 + 9 + 2) (0 + 9 + 2 + 12 - 1) (close_segment 0 (0 + 9 - 1) [])"
    by (rule segments_two_runs) simp_all
  then have "segments_of_classification (replicate 9 True @ replicate 2 False @ replicate 12 True)
      = [\<lparr>seg_start = 0, seg_end = 27 / 100\<rparr>, \<lparr>seg_start = 33 / 100, seg_end = 69 / 100\<rparr>]"
    by (simp add: close_segment_frames frame_time_def frame_duration_def)
  then have d: "detect_speech_segments (run_of (replicate 9 True @ replicate 2 False @ replicate 12 True))
      = Inr [\<lparr>seg_start = 0, seg_end = 27 / 100\<rparr>, \<lparr>seg_start = 33 / 100, seg_end = 69 / 100\<rparr>]"
    by (simp add: detect_run_of)
  from C6_sorted_non_overlapping [OF d] d show ?thesis by blast
qed

text \<open>
  C7. Every segment returned by \<^verbatim>\<open>detect_speech_segments\<close> lasts at least 0.25 s. A
  shorter candidate is dropped silently: closing it leaves the list of segments as it
  was, and the segmenter returns a list whenever the audio loads and the detector
  classifies every frame.
\<close>

theorem C7_minimum_duration:
  "(detect_speech_segments w = Inr segments \<longrightarrow>
      (\<forall>s \<in> set segments. seg_end s - seg_start s \<ge> 1 / 4))
   \<and> (librosa_load w = Some y \<and> those (map (vad_is_speech w) (split_frames y)) = Some cls \<longrightarrow>
      (\<exists>segments. detect_speech_segments w = Inr segments))
   \<and> (frame_time (prev_frame + 1) - frame_time start_frame < 1 / 4 \<longrightarrow>
      close_segment start_frame prev_frame kept = kept)"
proof (intro conjI impI)
  assume "detect_speech_segments w = Inr segments"
  from detect_speech_segments_Inr [OF this] obtain c
    where "segments = segments_of_classification c" by blast
  then have "list_all long_enough segments"
    by (simp add: segments_of_classification_def merge_segments_long)
  then show "\<forall>s \<in> set segments. seg_end s - seg_start s \<ge> 1 / 4"
    by (simp add: list_all_iff long_enough_def)
next
  assume "librosa_load w = Some y \<and> those (map (vad_is_speech w) (split_frames y)) = Some cls"
  then show "\<exists>segments. detect_speech_segments w = Inr segments"
    by (simp add: detect_classified)
next
  assume "frame_time (prev_frame + 1) - frame_time start_frame < 1 / 4"
  then show "close_segment start_frame prev_frame kept = kept"
    by (simp add: close_segment_def)
qed

theorem C7_minimum_duration_witness:
  "detect_speech_segments (run_of (replicate 9 True @ replicate 1 False @ replicate 8 True))
     = Inr [\<lparr>seg_start = 0, seg_end = 27 / 100\<rparr>]
   \<and> seg_end \<lparr>seg_start = 0, seg_end = 27 / 100\<rparr> - seg_start \<lparr>seg_start = 0, seg_end = 27 / 100\<rparr> \<ge> 1 / 4
   \<and> frame_time (17 + 1) - frame_time 10 < 1 / 4
   \<and> close_segment 10 17 [\<lparr>seg_start = 0, seg_end = 27 / 100\<rparr>] = [\<lparr>seg_start = 0, seg_end = 27 / 100\<rparr>]"
proof -
  let ?c = "replicate 9 True @ replicate 1 False @ replicate 8 True"
  let ?s = "\<lparr>seg_start = 0, seg_end = 27 / 100\<rparr>"
  have "segments_of_classification
      (replicate 0 False @ replicate 9 True @ replicate 1 False @ replicate 8 True @ replicate 0 False)
      = close_segment (0 + 9 + 1) (0 + 9 + 1 + 8 - 1) (close_segment 0 (0 + 9 - 1) [])"
    by (rule segments_two_runs) simp_all
  then have "segments_of_classification ?c = [?s]"
    by (simp add: close_segment_frames frame_time_def frame_duration_def)
  then have d: "detect_speech_segments (run_of ?c) = Inr [?s]"
    by (simp add: detect_run_of)
  have short: "frame_time (17 + 1) - frame_time 10 < 1 / 4"
    by (simp add: frame_time_def frame_duration_def)
  note t = C7_minimum_duration [of "run_of ?c" "[?s]" "buffer_of ?c" ?c 17 10 "[?s]"]
  from t d have "seg_end ?s - seg_start ?s \<ge> 1 / 4" by simp
  moreover from t short have "close_segment 10 17 [?s] = [?s]" by blast
  ultimately show ?thesis using d short by blast
qed

lemma identical_labels: "(\<forall>a\<in>set labels. \<forall>b\<in>set labels. a = b) \<longleftrightarrow> length (remdups labels) \<le> 1"
proof -
  have "length (remdups labels) = card (set labels)"
    by (rule length_remdups_card_conv)
  moreover have "card (set labels) \<le> Suc 0 \<longleftrightarrow> (\<forall>a\<in>set labels. \<forall>b\<in>set labels. a = b)"
    by (rule card_le_Suc0_iff_eq) simp
  ultimately show ?thesis by simp
qed

section \<open>The claims about the later stages and the endpoint\<close>

text \<open>
  C3. For every vector sequence and label sequence the confidence returned by
  \<^verbatim>\<open>calculate_confidence\<close> lies in [0, 1]; it is exactly 0 when there are fewer than 2
  vectors or when all labels are identical, and otherwise it is the silhouette score
  with a negative value clamped to 0. The score is computed by scikit-learn; that it
  is at most 1 is the hypothesis on it, and the last part speaks of the runs on which it
  returns a score.
\<close>

theorem C3_confidence_range:
  assumes "\<forall>s. silhouette_score w embeddings labels = Some s \<longrightarrow> s \<le> 1"
  shows "0 \<le> calculate_confidence w embeddings labels
       \<and> calculate_confidence w embeddings labels \<le> 1
       \<and> (length embeddings < 2 \<or> (\<forall>a\<in>set labels. \<forall>b\<in>set labels. a = b) \<longrightarrow>
            calculate_confidence w embeddings labels = 0)
       \<and> (2 \<le> length embeddings \<and> \<not> (\<forall>a\<in>set labels. \<forall>b\<in>set labels. a = b) \<longrightarrow>
            (\<forall>s. silhouette_score w embeddings labels = Some s \<longrightarrow>
               calculate_confidence w embeddings labels = max 0 s))"
proof (intro conjI impI allI)
  show "0 \<le> calculate_confidence w embeddings labels"
    by (simp add: calculate_confidence_def split: option.splits)
  show "calculate_confidence w embeddings labels \<le> 1"
    using assms by (simp add: calculate_confidence_def split: option.splits)
next
  assume "length embeddings < 2 \<or> (\<forall>a\<in>set labels. \<forall>b\<in>set labels. a = b)"
  then have "length embeddings < 2 \<or> length (remdups labels) \<le> 1"
    by (simp only: identical_labels)
  then show "calculate_confidence w embeddings labels = 0"
    by (auto simp: calculate_confidence_def)
next
  fix s
  assume "2 \<le> length embeddings \<and> \<not> (\<forall>a\<in>set labels. \<forall>b\<in>set labels. a = b)"
    and "silhouette_score w embeddings labels = Some s"
  then have "2 \<le> length embeddings" "\<not> length (remdups labels) \<le> 1"
    "silhouette_score w embeddings labels = Some s"
    by (simp_all only: identical_labels) simp_all
  then show "calculate_confidence w embeddings labels = max 0 s"
    by (simp add: calculate_confidence_def)
qed

theorem C3_confidence_range_witness:
  "silhouette_score (run_of []\<lparr>silhouette_score := \<lambda>X labels. Some (- 1 / 3)\<rparr>) [[1], [2], [4]] [0, 1, 0]
     = Some (- 1 / 3)
   \<and> calculate_confidence (run_of []\<lparr>silhouette_score := \<lambda>X labels. Some (- 1 / 3)\<rparr>)
        [[1], [2], [4]] [0, 1, 0] = 0
   \<and> calculate_confidence (run_of []) [[1], [2], [4]] [0, 1, 0] = 1 / 2
   \<and> calculate_confidence (run_of []) [[1], [2], [4]] [0, 0, 0] = 0
   \<and> calculate_confidence (run_of []) [[1]] [0] = 0"
proof -
  let ?w = "run_of []\<lparr>silhouette_score := \<lambda>X labels. Some (- 1 / 3)\<rparr>"
  let ?X = "[[1], [2], [4]] :: embedding list"
  have s1: "silhouette_score ?w ?X [0, 1, 0] = Some (- 1 / 3)" by simp
  have s2: "silhouette_score (run_of []) ?X [0, 1, 0] = Some (1 / 2)" by (simp add: run_of_def)
  have h1: "\<forall>s. silhouette_score ?w ?X [0, 1, 0] = Some s \<longrightarrow> s \<le> 1" by simp
  have h2: "\<forall>s. silhouette_score (run_of []) X L = Some s \<longrightarrow> s \<le> 1" for X L
    by (simp add: run_of_def)
  have two: "2 \<le> length ?X \<and> \<not> (\<forall>a\<in>set [0, 1, 0 :: int]. \<forall>b\<in>set [0, 1, 0 :: int]. a = b)"
    by simp
  have same: "length ?X < 2 \<or> (\<forall>a\<in>set [0, 0, 0 :: int]. \<forall>b\<in>set [0, 0, 0 :: int]. a = b)"
    by simp
  have one: "length [[1 :: rat]] < 2 \<or> (\<forall>a\<in>set [0 :: int]. \<forall>b\<in>set [0 :: int]. a = b)"
    by simp
  have "calculate_confidence ?w ?X [0, 1, 0] = max 0 (- 1 / 3)"
    using C3_confidence_range [OF h1] two s1 by blast
  moreover have "calculate_confidence (run_of []) ?X [0, 1, 0] = max 0 (1 / 2)"
    using C3_confidence_range [OF h2 [of ?X "[0, 1, 0]"]] two s2 by blast
  moreover have "calculate_confidence (run_of []) ?X [0, 0, 0] = 0"
    using C3_confidence_range [OF h2 [of ?X "[0, 0, 0]"]] same by blast
  moreover have "calculate_confidence (run_of []) [[1]] [0] = 0"
    using C3_confidence_range [OF h2 [of "[[1]]" "[0]"]] one by blast
  ultimately show ?thesis using s1 by simp
qed

lemma those_eq_Some: "those xs = Some ys \<longleftrightarrow> xs = map Some ys"
  by (induction xs arbitrary: ys) (auto split: option.splits)

lemma those_eq_None: "those xs = None \<longleftrightarrow> None \<in> set xs"
  by (induction xs) (auto split: option.splits)

section \<open>Double precision: lemmas\<close>

lemma scale_up_steps:
  assumes "2 ^ 52 \<le> m * 2 ^ j" and "m * 2 ^ j < 2 ^ 53" and "int j < e + 1074"
  shows "scale_up m e = (m * 2 ^ j, e - int j)"
  using assms
proof (induction j arbitrary: m e)
  case 0
  then show ?case by (subst scale_up.simps) simp
next
  case (Suc j)
  have "m * 2 * 2 ^ j < 2 ^ 53" using Suc.prems(2) by (simp add: mult.assoc)
  then have "m * 2 ^ Suc j < 2 * 2 ^ 52" by (simp add: mult.assoc)
  moreover have "(1 :: rat) \<le> 2 ^ j" by simp
  ultimately have small: "m < 2 ^ 52"
  proof -
    have "0 < (2 :: rat) ^ Suc j" by simp
    have "m * 2 ^ Suc j < 2 ^ 52 * 2 ^ Suc j \<or> 2 ^ 52 * 2 ^ Suc j \<le> m * 2 ^ Suc j" by linarith
    moreover have "(2 :: rat) ^ 52 * 2 \<le> 2 ^ 52 * 2 ^ Suc j"
      using \<open>(1 :: rat) \<le> 2 ^ j\<close> by simp
    ultimately have "m * 2 ^ Suc j < 2 ^ 52 * 2 ^ Suc j"
      using \<open>m * 2 ^ Suc j < 2 * 2 ^ 52\<close> by linarith
    then show ?thesis by (simp only: mult_less_cancel_right_pos [OF \<open>0 < (2 :: rat) ^ Suc j\<close>])
  qed
  have "scale_up (m * 2) (e - 1) = (m * 2 * 2 ^ j, e - 1 - int j)"
    using Suc.prems by (intro Suc.IH) (simp_all add: mult.assoc)
  moreover have "scale_up m e = scale_up (m * 2) (e - 1)"
    using small Suc.prems(3) by (subst scale_up.simps) simp
  ultimately show ?case by (simp add: mult.assoc)
qed

lemma round_half_even_le: "round_half_even m \<le> \<lfloor>m\<rfloor> + 1"
  by (simp add: round_half_even_def Let_def)

lemma round_half_even_ge: "\<lfloor>m\<rfloor> \<le> round_half_even m"
  by (simp add: round_half_even_def Let_def)

lemma to_double_scaled:
  assumes "0 < x" and "2 ^ 52 \<le> x * 2 ^ j" and "x * 2 ^ j < 2 ^ 53" and "j < 1074"
  shows "to_double x = Some (of_int (round_half_even (x * 2 ^ j)) / 2 ^ j)"
proof -
  have "(1 :: rat) \<le> 2 ^ j" by simp
  then have "x * 1 \<le> x * 2 ^ j" using assms(1) by (intro mult_left_mono) simp_all
  then have x: "x < 2 ^ 53" using assms(3) by simp
  then have d: "scale_down \<bar>x\<bar> 0 = (x, 0)"
    using assms(1) by (subst scale_down.simps) simp
  have u: "scale_up x 0 = (x * 2 ^ j, 0 - int j)"
    using assms(2-4) by (intro scale_up_steps) simp_all
  let ?r = "round_half_even (x * 2 ^ j)"
  have "x * 2 ^ j < of_int (2 ^ 53)" using assms(3) by simp
  then have "\<lfloor>x * 2 ^ j\<rfloor> < 2 ^ 53" by (simp only: floor_less_iff)
  then have "?r \<le> 2 ^ 53" using round_half_even_le [of "x * 2 ^ j"] by linarith
  then have "(of_int ?r :: rat) \<le> 2 ^ 53" by (metis of_int_le_iff of_int_numeral of_int_power)
  moreover have "0 \<le> \<lfloor>x * 2 ^ j\<rfloor>"
    using assms(1) by simp
  then have "0 \<le> ?r" using round_half_even_ge [of "x * 2 ^ j"] by linarith
  then have "(0 :: rat) \<le> of_int ?r" by simp
  then have "(of_int ?r :: rat) / 2 ^ j \<le> of_int ?r / 1"
    using \<open>(1 :: rat) \<le> 2 ^ j\<close> by (intro divide_left_mono) simp_all
  ultimately have "(of_int ?r :: rat) / 2 ^ j \<le> 2 ^ 53" by simp
  moreover have "(2 :: rat) ^ 53 < 2 ^ 1024" by simp
  ultimately have "(of_int ?r :: rat) / 2 ^ j < 2 ^ 1024" by (rule le_less_trans)
  then have nov: "\<not> 2 ^ 1024 \<le> (of_int ?r :: rat) / 2 ^ j" by simp
  show ?thesis
  proof (cases "j = 0")
    case True
    with nov assms(1) d u show ?thesis
      by (simp add: to_double_def Let_def)
  next
    case False
    with nov assms(1) d u show ?thesis
      by (simp add: to_double_def Let_def)
  qed
qed

lemma floor_rat_numeral: "\<lfloor>(numeral a :: rat) / numeral b\<rfloor> = numeral a div numeral b"
  by (metis floor_divide_of_int_eq of_int_numeral)

lemma to_double_0: "to_double 0 = Some 0"
  by (simp add: to_double_def)

lemma sample_index_eval:
  assumes "0 < t" and "2 ^ 52 \<le> t * 2 ^ j" and "t * 2 ^ j < 2 ^ 53" and "j < 1074"
    and "d = of_int (round_half_even (t * 2 ^ j)) / 2 ^ j"
    and "0 < d" and "2 ^ 52 \<le> d * 16000 * 2 ^ k" and "d * 16000 * 2 ^ k < 2 ^ 53" and "k < 1074"
    and "n = py_int (of_int (round_half_even (d * 16000 * 2 ^ k)) / 2 ^ k)"
  shows "sample_index t = Some n"
proof -
  have "to_double t = Some d"
    using to_double_scaled [OF assms(1-4)] assms(5) by simp
  moreover have "to_double (d * 16000) = Some (of_int (round_half_even (d * 16000 * 2 ^ k)) / 2 ^ k)"
    using assms(6-9) by (intro to_double_scaled) simp_all
  ultimately show ?thesis using assms(10) by (simp add: sample_index_def)
qed

lemma sample_index_0: "sample_index 0 = Some 0"
  by (simp add: sample_index_def to_double_0 py_int_def)

lemma sample_index_values:
  "sample_index (201 / 100) = Some 32159"
  "sample_index (57 / 25) = Some 36480"
  "sample_index 3 = Some 48000"
  "sample_index (501 / 100) = Some 80160"
  "sample_index (27 / 100) = Some 4320"
  "sample_index (33 / 100) = Some 5280"
  "sample_index (69 / 100) = Some 11040"
proof -
  show "sample_index (201 / 100) = Some 32159"
    by (rule sample_index_eval [where j = 51 and k = 38
          and d = "1131529406376837 / 562949953421312"])
       (simp_all add: round_half_even_def py_int_def Let_def floor_rat_numeral)
  show "sample_index (57 / 25) = Some 36480"
    by (rule sample_index_eval [where j = 51 and k = 37
          and d = "5134103575202365 / 2251799813685248"])
       (simp_all add: round_half_even_def py_int_def Let_def floor_rat_numeral)
  show "sample_index 3 = Some 48000"
    by (rule sample_index_eval [where j = 51 and k = 37 and d = 3])
       (simp_all add: round_half_even_def py_int_def Let_def floor_rat_numeral)
  show "sample_index (501 / 100) = Some 80160"
    by (rule sample_index_eval [where j = 50 and k = 36
          and d = "2820379266640773 / 562949953421312"])
       (simp_all add: round_half_even_def py_int_def Let_def floor_rat_numeral)
  show "sample_index (27 / 100) = Some 4320"
    by (rule sample_index_eval [where j = 54 and k = 40
          and d = "607985949695017 / 2251799813685248"])
       (simp_all add: round_half_even_def py_int_def Let_def floor_rat_numeral)
  show "sample_index (33 / 100) = Some 5280"
    by (rule sample_index_eval [where j = 54 and k = 40
          and d = "5944751508129055 / 18014398509481984"])
       (simp_all add: round_half_even_def py_int_def Let_def floor_rat_numeral)
  show "sample_index (69 / 100) = Some 11040"
    by (rule sample_index_eval [where j = 53 and k = 39
          and d = "1553741871442821 / 2251799813685248"])
       (simp_all add: round_half_even_def py_int_def Let_def floor_rat_numeral)
qed


section \<open>The embedding stage: lemmas\<close>

lemma embed_segment_length:
  assumes "\<forall>x e. encode x = Some e \<longrightarrow> length e = 256"
    and "embed_segment encode wav s = Some e"
  shows "length e = 256"
  using assms by (auto simp: embed_segment_def split: option.splits if_splits)

lemma embed_segment_cases:
  "embed_segment encode wav s = Some e \<Longrightarrow>
   \<exists>samples. segment_wav wav s = Some samples \<and>
     (if samples = [] then e = replicate 256 0 else encode samples = Some e)"
  by (auto simp: embed_segment_def split: option.splits if_splits)

lemma extract_embeddings_Inr:
  assumes "preprocess_wav w = Some wav" "voice_encoder w = Some encode"
  shows "extract_embeddings w segments = Inr embeddings \<longleftrightarrow>
         map (embed_segment encode wav) segments = map Some embeddings"
  using assms those_eq_Some [of "map (embed_segment encode wav) segments" embeddings]
  by (auto simp: extract_embeddings_def split: option.splits)

lemma extract_embeddings_length:
  assumes "extract_embeddings w segments = Inr embeddings"
  shows "length embeddings = length segments"
proof -
  obtain wav encode where "preprocess_wav w = Some wav" "voice_encoder w = Some encode"
    using assms by (auto simp: extract_embeddings_def split: option.splits)
  then have "map (embed_segment encode wav) segments = map Some embeddings"
    using assms by (simp add: extract_embeddings_Inr)
  then show ?thesis by (metis length_map)
qed

lemma extract_embeddings_nth:
  assumes "preprocess_wav w = Some wav" "voice_encoder w = Some encode"
    and "extract_embeddings w segments = Inr embeddings" and "i < length segments"
  shows "embed_segment encode wav (segments ! i) = Some (embeddings ! i)"
proof -
  have m: "map (embed_segment encode wav) segments = map Some embeddings"
    using assms(1-3) by (simp add: extract_embeddings_Inr)
  have "i < length embeddings"
    using assms(3,4) by (simp add: extract_embeddings_length)
  then have "map Some embeddings ! i = Some (embeddings ! i)" by simp
  moreover have "map (embed_segment encode wav) segments ! i = embed_segment encode wav (segments ! i)"
    using assms(4) by simp
  ultimately show ?thesis using m by simp
qed

lemma extract_embeddings_total:
  assumes "preprocess_wav w = Some wav" "voice_encoder w = Some encode"
    and "\<forall>s\<in>set segments. \<exists>samples. segment_wav wav s = Some samples \<and>
           (samples \<noteq> [] \<longrightarrow> encode samples \<noteq> None)"
  shows "\<exists>embeddings. extract_embeddings w segments = Inr embeddings"
proof -
  have "embed_segment encode wav s \<noteq> None" if "s \<in> set segments" for s
  proof -
    from assms(3) that obtain samples where
      "segment_wav wav s = Some samples" "samples \<noteq> [] \<longrightarrow> encode samples \<noteq> None"
      by blast
    then show ?thesis by (simp add: embed_segment_def)
  qed
  then have "None \<notin> set (map (embed_segment encode wav) segments)"
    by (metis (no_types, lifting) imageE list.set_map)
  then have "those (map (embed_segment encode wav) segments) \<noteq> None"
    by (simp only: those_eq_None) simp
  then show ?thesis
    using assms(1,2) by (auto simp: extract_embeddings_def)
qed

text \<open>
  C5. \<^verbatim>\<open>extract_embeddings\<close> returns exactly one vector per input segment, in the order
  of the segments, each of dimension 256; for a segment whose sample slice
  \<^verbatim>\<open>wav[int(start * 16000):int(end * 16000)]\<close>, with the bounds computed in double
  precision as the code computes them, is empty, the vector is the all-zero vector of
  dimension 256, and the empty slice makes nothing fail: the function returns whenever
  the slices are computed and the encoder returns on the non-empty ones. That the
  encoder's vectors have dimension 256 is the hypothesis on the pretrained model.
\<close>

theorem C5_one_embedding_per_segment:
  assumes "preprocess_wav w = Some wav" and "voice_encoder w = Some encode"
    and "\<forall>x e. encode x = Some e \<longrightarrow> length e = 256"
  shows "(\<forall>embeddings. extract_embeddings w segments = Inr embeddings \<longrightarrow>
            length embeddings = length segments \<and>
            (\<forall>i<length segments.
               length (embeddings ! i) = 256 \<and>
               (\<exists>samples. segment_wav wav (segments ! i) = Some samples \<and>
                  (if samples = []
                   then embeddings ! i = replicate 256 0
                   else encode samples = Some (embeddings ! i)))))
       \<and> ((\<forall>s\<in>set segments. \<exists>samples. segment_wav wav s = Some samples \<and>
              (samples \<noteq> [] \<longrightarrow> encode samples \<noteq> None)) \<longrightarrow>
            (\<exists>embeddings. extract_embeddings w segments = Inr embeddings))"
proof -
  have nth: "length (embeddings ! i) = 256 \<and>
       (\<exists>samples. segment_wav wav (segments ! i) = Some samples \<and>
          (if samples = []
           then embeddings ! i = replicate 256 0
           else encode samples = Some (embeddings ! i)))"
    if "extract_embeddings w segments = Inr embeddings" "i < length segments" for embeddings i
  proof -
    have e: "embed_segment encode wav (segments ! i) = Some (embeddings ! i)"
      using assms(1,2) that by (rule extract_embeddings_nth)
    show ?thesis
      using embed_segment_length [OF assms(3) e] embed_segment_cases [OF e] by simp
  qed
  show ?thesis
    using nth extract_embeddings_length [of w segments]
      extract_embeddings_total [OF assms(1,2), of segments]
    by blast
qed

lemma segment_wav_zeros:
  assumes "sample_index a = Some i" "sample_index b = Some j" "0 \<le> i" "0 \<le> j"
  shows "segment_wav (replicate n 0) \<lparr>seg_start = a, seg_end = b\<rparr>
     = Some (replicate (min (nat j) n - min (nat i) n) 0)"
  using assms by (simp add: segment_wav_def py_slice_def slice_bound_def Let_def not_less)

theorem C5_one_embedding_per_segment_witness:
  "preprocess_wav (run_of []\<lparr>preprocess_wav := Some (replicate 32160 0)\<rparr>)
     = Some (replicate 32160 0)
   \<and> sample_index (201 / 100) = Some 32159 \<and> sample_index (57 / 25) = Some 36480
   \<and> segment_wav (replicate 32160 0) \<lparr>seg_start = 201 / 100, seg_end = 57 / 25\<rparr> = Some [0]
   \<and> segment_wav (replicate 32160 0) \<lparr>seg_start = 3, seg_end = 501 / 100\<rparr> = Some []
   \<and> (\<exists>embeddings.
        extract_embeddings (run_of []\<lparr>preprocess_wav := Some (replicate 32160 0)\<rparr>)
          [\<lparr>seg_start = 201 / 100, seg_end = 57 / 25\<rparr>, \<lparr>seg_start = 3, seg_end = 501 / 100\<rparr>]
          = Inr embeddings
        \<and> length embeddings = 2
        \<and> embeddings ! 0 = replicate 256 1 \<and> length (embeddings ! 0) = 256
        \<and> embeddings ! 1 = replicate 256 0)"
proof -
  let ?w = "run_of []\<lparr>preprocess_wav := Some (replicate 32160 0)\<rparr>"
  let ?wav = "replicate 32160 0 :: rat list"
  let ?enc = "\<lambda>samples :: rat list. Some (replicate 256 (of_nat (length samples) :: rat))"
  let ?segs = "[\<lparr>seg_start = 201 / 100, seg_end = 57 / 25\<rparr>, \<lparr>seg_start = 3, seg_end = 501 / 100\<rparr>]"
  have p: "preprocess_wav ?w = Some ?wav" by simp
  have v: "voice_encoder ?w = Some ?enc" by (simp add: run_of_def)
  have h: "\<forall>x e. ?enc x = Some e \<longrightarrow> length e = 256" by auto
  have w0: "segment_wav ?wav (?segs ! 0) = Some [0]"
    using segment_wav_zeros [OF sample_index_values(1) sample_index_values(2), of 32160] by simp
  have w1: "segment_wav ?wav (?segs ! 1) = Some []"
    using segment_wav_zeros [OF sample_index_values(3) sample_index_values(4), of 32160] by simp
  have ok: "\<forall>s\<in>set ?segs. \<exists>samples. segment_wav ?wav s = Some samples \<and>
              (samples \<noteq> [] \<longrightarrow> ?enc samples \<noteq> None)"
    using w0 w1 by simp
  note t = C5_one_embedding_per_segment [OF p v h, of ?segs]
  from t ok obtain embeddings where e: "extract_embeddings ?w ?segs = Inr embeddings"
    by blast
  with t have len: "length embeddings = length ?segs"
    and nth: "\<forall>i<length ?segs. length (embeddings ! i) = 256 \<and>
               (\<exists>samples. segment_wav ?wav (?segs ! i) = Some samples \<and>
                  (if samples = []
                   then embeddings ! i = replicate 256 0
                   else ?enc samples = Some (embeddings ! i)))"
    by blast+
  have "0 < length ?segs" "1 < length ?segs" by simp_all
  with nth have n0: "length (embeddings ! 0) = 256 \<and>
               (\<exists>samples. segment_wav ?wav (?segs ! 0) = Some samples \<and>
                  (if samples = []
                   then embeddings ! 0 = replicate 256 0
                   else ?enc samples = Some (embeddings ! 0)))"
    and n1: "length (embeddings ! 1) = 256 \<and>
               (\<exists>samples. segment_wav ?wav (?segs ! 1) = Some samples \<and>
                  (if samples = []
                   then embeddings ! 1 = replicate 256 0
                   else ?enc samples = Some (embeddings ! 1)))"
    by blast+
  from n0 have "embeddings ! 0 = replicate 256 1" "length (embeddings ! 0) = 256"
    unfolding w0 by simp_all
  moreover from n1 have "embeddings ! 1 = replicate 256 0"
    unfolding w1 by simp
  ultimately show ?thesis
    using p e len w0 w1 sample_index_values(1,2) by auto
qed

lemma diarize_audio_fetched:
  assumes "fetch w = Fetched" "ffmpeg_ok w"
  shows "diarize_audio w files =
    (let audio_path = temp_name w;
         wav_path = py_replace audio_path ''.wav'' ''_converted.wav'';
         files2 = insert wav_path (insert audio_path files)
     in case detect_speech_segments w of
          Inl e \<Rightarrow> (Inl (pipeline_failure e), files2)
        | Inr speech_segments \<Rightarrow>
            if speech_segments = []
            then (Inr \<lparr>diarizedSegments = [], speakerCount = 0, confidence = 0,
                       debug = [(''message'', DebugStr ''No speech detected'')]\<rparr>, files2)
            else
       (case extract_embeddings w speech_segments of
          Inl e \<Rightarrow> (Inl (pipeline_failure e), files2)
        | Inr embeddings \<Rightarrow>
       (case cluster_speakers w embeddings of
          Inl e \<Rightarrow> (Inl (pipeline_failure e), files2)
        | Inr speaker_labels \<Rightarrow>
            (Inr \<lparr>diarizedSegments =
                     map (\<lambda>(i, segment). diarized_segment speaker_labels i segment)
                       (enumerate 0 speech_segments),
                   speakerCount = length (remdups speaker_labels),
                   confidence = calculate_confidence w embeddings speaker_labels,
                   debug = [(''speech_segments_count'', DebugInt (length speech_segments)),
                            (''embeddings_count'', DebugInt (length embeddings)),
                            (''processing_time'', DebugStr ''mock'')]\<rparr>,
             clean_up audio_path wav_path files2))))"
  using assms
  by (simp add: diarize_audio_def download_audio_def convert_to_wav_def Let_def
      split: sum.split)

lemma diarize_audio_Inr_fetched:
  assumes "fst (diarize_audio w files) = Inr r"
  shows "fetch w = Fetched \<and> ffmpeg_ok w"
  using assms
  by (cases "fetch w"; cases "ffmpeg_ok w")
     (simp_all add: diarize_audio_def download_audio_def convert_to_wav_def Let_def)

lemma no_speech_indices: "True \<notin> set cls \<Longrightarrow> speech_indices cls = []"
proof -
  assume n: "True \<notin> set cls"
  have "\<not> cls ! i" if "i < length cls" for i
    using n nth_mem [OF that] by auto
  then show ?thesis
    unfolding speech_indices_def by (simp add: filter_empty_conv)
qed

lemma no_speech_segments: "True \<notin> set cls \<Longrightarrow> segments_of_classification cls = []"
  by (simp add: segments_of_classification_def no_speech_indices merge_segments_def)

lemma detect_ignores_later_stages [simp]:
  "detect_speech_segments (w\<lparr>preprocess_wav := p\<rparr>) = detect_speech_segments w"
  "detect_speech_segments (w\<lparr>voice_encoder := v\<rparr>) = detect_speech_segments w"
  "detect_speech_segments (w\<lparr>fit_predict := f\<rparr>) = detect_speech_segments w"
  "detect_speech_segments (w\<lparr>silhouette_score := s\<rparr>) = detect_speech_segments w"
  by (simp_all add: detect_speech_segments_def split: option.split)

text \<open>
  C4. When the classification marks no frame as speech, the segmenter returns the
  empty list and the endpoint answers with no diarized segment, \<^verbatim>\<open>speakerCount\<close> 0 and
  confidence 0; the answer is the same whatever the embedding, clustering and
  confidence collaborators would do, failing ones included: they are not run.
\<close>

theorem C4_no_speech_short_circuit:
  assumes "fetch w = Fetched" and "ffmpeg_ok w"
    and "librosa_load w = Some y"
    and "those (map (vad_is_speech w) (split_frames y)) = Some cls"
    and "True \<notin> set cls"
  shows "detect_speech_segments w = Inr []
       \<and> fst (diarize_audio w files)
           = Inr \<lparr>diarizedSegments = [], speakerCount = 0, confidence = 0,
                  debug = [(''message'', DebugStr ''No speech detected'')]\<rparr>
       \<and> (\<forall>p v f s.
            fst (diarize_audio
                  (w\<lparr>preprocess_wav := p, voice_encoder := v, fit_predict := f,
                     silhouette_score := s\<rparr>) files)
            = Inr \<lparr>diarizedSegments = [], speakerCount = 0, confidence = 0,
                   debug = [(''message'', DebugStr ''No speech detected'')]\<rparr>)"
proof -
  have d: "detect_speech_segments w = Inr []"
    using detect_classified [OF assms(3,4)] assms(5) by (simp add: no_speech_segments)
  have r: "fst (diarize_audio w' files)
           = Inr \<lparr>diarizedSegments = [], speakerCount = 0, confidence = 0,
                  debug = [(''message'', DebugStr ''No speech detected'')]\<rparr>"
    if "fetch w' = Fetched" "ffmpeg_ok w'" "detect_speech_segments w' = Inr []" for w'
    using that by (simp add: diarize_audio_fetched Let_def)
  have "fst (diarize_audio
                  (w\<lparr>preprocess_wav := p, voice_encoder := v, fit_predict := f,
                     silhouette_score := s\<rparr>) files)
            = Inr \<lparr>diarizedSegments = [], speakerCount = 0, confidence = 0,
                   debug = [(''message'', DebugStr ''No speech detected'')]\<rparr>" for p v f s
    using assms(1,2) d by (intro r) simp_all
  then show ?thesis using d r [OF assms(1,2) d] by blast
qed

theorem C4_no_speech_short_circuit_witness:
  "fetch (run_of (replicate 20 False)) = Fetched \<and> ffmpeg_ok (run_of (replicate 20 False))
   \<and> librosa_load (run_of (replicate 20 False)) = Some (buffer_of (replicate 20 False))
   \<and> those (map (vad_is_speech (run_of (replicate 20 False)))
        (split_frames (buffer_of (replicate 20 False)))) = Some (replicate 20 False)
   \<and> True \<notin> set (replicate 20 False)
   \<and> detect_speech_segments (run_of (replicate 20 False)) = Inr []
   \<and> fst (diarize_audio
            (run_of (replicate 20 False)
               \<lparr>preprocess_wav := None, voice_encoder := None, fit_predict := \<lambda>X. None,
                silhouette_score := \<lambda>X labels. None\<rparr>) {})
       = Inr \<lparr>diarizedSegments = [], speakerCount = 0, confidence = 0,
              debug = [(''message'', DebugStr ''No speech detected'')]\<rparr>"
proof -
  let ?c = "replicate 20 False"
  have f: "fetch (run_of ?c) = Fetched" and g: "ffmpeg_ok (run_of ?c)"
    and l: "librosa_load (run_of ?c) = Some (buffer_of ?c)"
    by (simp_all add: run_of_def)
  have v: "those (map (vad_is_speech (run_of ?c)) (split_frames (buffer_of ?c))) = Some ?c"
    by (rule classification_run_of)
  have n: "True \<notin> set ?c" by simp
  from C4_no_speech_short_circuit [OF f g l v n, of "{}"] f g l v n show ?thesis by blast
qed

lemma segments_two_runs_example: "segments_of_classification two_runs = two_segments"
proof -
  have "segments_of_classification
      (replicate 0 False @ replicate 9 True @ replicate 2 False @ replicate 12 True @ replicate 0 False)
      = close_segment (0 + 9 + 2) (0 + 9 + 2 + 12 - 1) (close_segment 0 (0 + 9 - 1) [])"
    by (rule segments_two_runs) simp_all
  then show ?thesis
    by (simp add: two_runs_def two_segments_def close_segment_frames frame_time_def frame_duration_def)
qed

lemma detect_two_runs:
  assumes "librosa_load w = Some (buffer_of two_runs)"
    and "vad_is_speech w = (\<lambda>frame. Some (hd frame = 1))"
  shows "detect_speech_segments w = Inr two_segments"
proof -
  have "those (map (vad_is_speech w) (split_frames (buffer_of two_runs))) = Some two_runs"
    using classification_run_of [of two_runs] assms(2) by (simp add: run_of_def)
  with assms(1) show ?thesis
    by (simp add: detect_classified segments_two_runs_example)
qed

lemma extract_two_segments:
  assumes "preprocess_wav w = Some (replicate 16000 0)"
    and "voice_encoder w = Some (\<lambda>samples. Some (replicate 256 (of_nat (length samples))))"
  shows "extract_embeddings w two_segments = Inr two_embeddings"
proof -
  have "segment_wav (replicate 16000 0) \<lparr>seg_start = 0, seg_end = 27 / 100\<rparr>
      = Some (replicate 4320 0)"
    using segment_wav_zeros [OF sample_index_0 sample_index_values(5), of 16000] by simp
  moreover have "segment_wav (replicate 16000 0) \<lparr>seg_start = 33 / 100, seg_end = 69 / 100\<rparr>
      = Some (replicate 5760 0)"
    using segment_wav_zeros [OF sample_index_values(6) sample_index_values(7), of 16000] by simp
  ultimately show ?thesis
    using assms
    by (simp add: extract_embeddings_def embed_segment_def two_segments_def two_embeddings_def)
qed

lemma cluster_two_embeddings:
  assumes "fit_predict w = (\<lambda>X. Some (map (\<lambda>i. int (i mod 2)) [0..<length X]))"
  shows "cluster_speakers w two_embeddings = Inr [0, 1]"
  using assms by (simp add: cluster_speakers_def two_embeddings_def)

lemma diarize_audio_detect_failed:
  assumes "fetch w = Fetched" "ffmpeg_ok w" "detect_speech_segments w = Inl e"
  shows "fst (diarize_audio w files) = Inl (pipeline_failure e)"
  using assms by (simp add: diarize_audio_fetched Let_def)

lemma diarize_audio_extract_failed:
  assumes "fetch w = Fetched" "ffmpeg_ok w" "detect_speech_segments w = Inr segs" "segs \<noteq> []"
    "extract_embeddings w segs = Inl e"
  shows "fst (diarize_audio w files) = Inl (pipeline_failure e)"
  using assms by (simp add: diarize_audio_fetched Let_def)

lemma diarize_audio_cluster_failed:
  assumes "fetch w = Fetched" "ffmpeg_ok w" "detect_speech_segments w = Inr segs" "segs \<noteq> []"
    "extract_embeddings w segs = Inr embs" "cluster_speakers w embs = Inl e"
  shows "fst (diarize_audio w files) = Inl (pipeline_failure e)"
  using assms by (simp add: diarize_audio_fetched Let_def)

lemma diarize_audio_succeeded:
  assumes "fetch w = Fetched" "ffmpeg_ok w" "detect_speech_segments w = Inr segs" "segs \<noteq> []"
    "extract_embeddings w segs = Inr embs" "cluster_speakers w embs = Inr labels"
  shows "fst (diarize_audio w files) =
     Inr \<lparr>diarizedSegments = map (\<lambda>(i, segment). diarized_segment labels i segment) (enumerate 0 segs),
          speakerCount = length (remdups labels),
          confidence = calculate_confidence w embs labels,
          debug = [(''speech_segments_count'', DebugInt (length segs)),
                   (''embeddings_count'', DebugInt (length embs)),
                   (''processing_time'', DebugStr ''mock'')]\<rparr>"
  using assms by (simp add: diarize_audio_fetched Let_def)

lemma diarize_audio_Inr_stages:
  assumes "fst (diarize_audio w files) = Inr r"
  shows "(detect_speech_segments w = Inr [] \<and> diarizedSegments r = [])
       \<or> (\<exists>segs embs labels.
             detect_speech_segments w = Inr segs \<and> segs \<noteq> [] \<and>
             extract_embeddings w segs = Inr embs \<and>
             cluster_speakers w embs = Inr labels \<and>
             diarizedSegments r
               = map (\<lambda>(i, segment). diarized_segment labels i segment) (enumerate 0 segs))"
proof -
  have f: "fetch w = Fetched" "ffmpeg_ok w"
    using diarize_audio_Inr_fetched [OF assms] by simp_all
  show ?thesis
  proof (cases "detect_speech_segments w")
    case (Inl e)
    with assms f show ?thesis by (simp add: diarize_audio_detect_failed)
  next
    case d: (Inr segs)
    show ?thesis
    proof (cases "segs = []")
      case True
      with assms f d show ?thesis by (auto simp: diarize_audio_fetched Let_def)
    next
      case ne: False
      show ?thesis
      proof (cases "extract_embeddings w segs")
        case (Inl e)
        with assms f d ne show ?thesis by (simp add: diarize_audio_extract_failed)
      next
        case x: (Inr embs)
        show ?thesis
        proof (cases "cluster_speakers w embs")
          case (Inl e)
          with assms f d ne x show ?thesis by (simp add: diarize_audio_cluster_failed)
        next
          case (Inr labels)
          with assms diarize_audio_succeeded [OF f d ne x Inr, of files] d ne x
          show ?thesis by auto
        qed
      qed
    qed
  qed
qed

text \<open>
  C9. A failure inside the confidence computation is swallowed and gives confidence 0,
  and the endpoint still answers; a failure of the segmentation, of the embedding or of
  the clustering makes the whole invocation fail with the single error
  \<^verbatim>\<open>HTTPException(500, str(e))\<close>; and an answer is never partial: it is either the empty
  answer of a run without speech, or every stage has succeeded and each segment carries
  the label the clusterer gave, so that a failed embedding or clustering stage yields no
  segment at all. (Stated for the runs that reach the stages: download and conversion
  succeed.)
\<close>

theorem C9_failure_handling:
  assumes "fetch w = Fetched" and "ffmpeg_ok w"
  shows "(\<forall>e. detect_speech_segments w = Inl e \<longrightarrow>
            fst (diarize_audio w files) = Inl (pipeline_failure e))
       \<and> (\<forall>segs e. detect_speech_segments w = Inr segs \<and> segs \<noteq> [] \<and>
            extract_embeddings w segs = Inl e \<longrightarrow>
            fst (diarize_audio w files) = Inl (pipeline_failure e))
       \<and> (\<forall>segs embs e. detect_speech_segments w = Inr segs \<and> segs \<noteq> [] \<and>
            extract_embeddings w segs = Inr embs \<and> cluster_speakers w embs = Inl e \<longrightarrow>
            fst (diarize_audio w files) = Inl (pipeline_failure e))
       \<and> (\<forall>segs embs labels. detect_speech_segments w = Inr segs \<and> segs \<noteq> [] \<and>
            extract_embeddings w segs = Inr embs \<and> cluster_speakers w embs = Inr labels \<and>
            silhouette_score w embs labels = None \<longrightarrow>
            calculate_confidence w embs labels = 0 \<and>
            (\<exists>r. fst (diarize_audio w files) = Inr r \<and> confidence r = 0 \<and>
                 diarizedSegments r
                   = map (\<lambda>(i, segment). diarized_segment labels i segment) (enumerate 0 segs)))
       \<and> (\<forall>r. fst (diarize_audio w files) = Inr r \<longrightarrow>
            (detect_speech_segments w = Inr [] \<and> diarizedSegments r = [])
            \<or> (\<exists>segs embs labels.
                  detect_speech_segments w = Inr segs \<and> segs \<noteq> [] \<and>
                  extract_embeddings w segs = Inr embs \<and>
                  cluster_speakers w embs = Inr labels \<and>
                  diarizedSegments r
                    = map (\<lambda>(i, segment). diarized_segment labels i segment) (enumerate 0 segs)))"
proof -
  have c: "calculate_confidence w embs labels = 0"
    if "silhouette_score w embs labels = None" for embs labels
    using that by (simp add: calculate_confidence_def)
  have s: "calculate_confidence w embs labels = 0 \<and>
            (\<exists>r. fst (diarize_audio w files) = Inr r \<and> confidence r = 0 \<and>
                 diarizedSegments r
                   = map (\<lambda>(i, segment). diarized_segment labels i segment) (enumerate 0 segs))"
    if "detect_speech_segments w = Inr segs" "segs \<noteq> []"
       "extract_embeddings w segs = Inr embs" "cluster_speakers w embs = Inr labels"
       "silhouette_score w embs labels = None" for segs embs labels
    using diarize_audio_succeeded [OF assms that(1-4), of files] c [OF that(5)] by simp
  show ?thesis
    using diarize_audio_detect_failed [OF assms, of _ files]
      diarize_audio_extract_failed [OF assms, of _ _ files]
      diarize_audio_cluster_failed [OF assms, of _ _ _ files]
      s diarize_audio_Inr_stages [of w files]
    by blast
qed

theorem C9_failure_handling_witness:
  "fst (diarize_audio (run_of two_runs\<lparr>librosa_load := None\<rparr>) {})
     = Inl (HTTPException 500 (Str (HTTPException 500 (Literal ''Speech detection failed''))))
   \<and> fst (diarize_audio (run_of two_runs\<lparr>voice_encoder := None\<rparr>) {})
     = Inl (HTTPException 500 (Str (HTTPException 500 (Literal ''Embedding extraction failed''))))
   \<and> fst (diarize_audio (run_of two_runs\<lparr>fit_predict := \<lambda>X. None\<rparr>) {})
     = Inl (HTTPException 500 (Str (HTTPException 500 (Literal ''Speaker clustering failed''))))
   \<and> calculate_confidence (run_of two_runs\<lparr>silhouette_score := \<lambda>X labels. None\<rparr>)
        two_embeddings [0, 1] = 0
   \<and> (\<exists>r. fst (diarize_audio (run_of two_runs\<lparr>silhouette_score := \<lambda>X labels. None\<rparr>) {}) = Inr r
          \<and> confidence r = 0 \<and> length (diarizedSegments r) = 2)"
proof -
  let ?w1 = "run_of two_runs\<lparr>librosa_load := None\<rparr>"
  let ?w2 = "run_of two_runs\<lparr>voice_encoder := None\<rparr>"
  let ?w3 = "run_of two_runs\<lparr>fit_predict := \<lambda>X. None\<rparr>"
  let ?w4 = "run_of two_runs\<lparr>silhouette_score := \<lambda>X labels. None\<rparr>"
  have f: "fetch ?w1 = Fetched" "ffmpeg_ok ?w1" "fetch ?w2 = Fetched" "ffmpeg_ok ?w2"
    "fetch ?w3 = Fetched" "ffmpeg_ok ?w3" "fetch ?w4 = Fetched" "ffmpeg_ok ?w4"
    by (simp_all add: run_of_def)
  have d1: "detect_speech_segments ?w1 = Inl (HTTPException 500 (Literal ''Speech detection failed''))"
    by (simp add: detect_speech_segments_def)
  have d: "detect_speech_segments ?w2 = Inr two_segments"
    "detect_speech_segments ?w3 = Inr two_segments"
    "detect_speech_segments ?w4 = Inr two_segments"
    by (simp_all add: detect_run_of segments_two_runs_example)
  have ne: "two_segments \<noteq> []" by (simp add: two_segments_def)
  have x2: "extract_embeddings ?w2 two_segments
      = Inl (HTTPException 500 (Literal ''Embedding extraction failed''))"
    by (simp add: extract_embeddings_def run_of_def)
  have x: "extract_embeddings ?w3 two_segments = Inr two_embeddings"
    "extract_embeddings ?w4 two_segments = Inr two_embeddings"
    by (rule extract_two_segments; simp add: run_of_def)+
  have c3: "cluster_speakers ?w3 two_embeddings
      = Inl (HTTPException 500 (Literal ''Speaker clustering failed''))"
    by (simp add: cluster_speakers_def two_embeddings_def)
  have c4: "cluster_speakers ?w4 two_embeddings = Inr [0, 1]"
    by (rule cluster_two_embeddings) (simp add: run_of_def)
  have s4: "silhouette_score ?w4 two_embeddings [0, 1] = None" by simp
  have r1: "fst (diarize_audio ?w1 {}) = Inl (pipeline_failure (HTTPException 500 (Literal ''Speech detection failed'')))"
    using C9_failure_handling [OF f(1,2), of "{}"] d1 by blast
  have r2: "fst (diarize_audio ?w2 {}) = Inl (pipeline_failure (HTTPException 500 (Literal ''Embedding extraction failed'')))"
    using C9_failure_handling [OF f(3,4), of "{}"] d(1) ne x2 by blast
  have r3: "fst (diarize_audio ?w3 {}) = Inl (pipeline_failure (HTTPException 500 (Literal ''Speaker clustering failed'')))"
    using C9_failure_handling [OF f(5,6), of "{}"] d(2) ne x(1) c3 by blast
  have r4: "calculate_confidence ?w4 two_embeddings [0, 1] = 0 \<and>
            (\<exists>r. fst (diarize_audio ?w4 {}) = Inr r \<and> confidence r = 0 \<and>
                 diarizedSegments r
                   = map (\<lambda>(i, segment). diarized_segment [0, 1] i segment) (enumerate 0 two_segments))"
    using C9_failure_handling [OF f(7,8), of "{}"] d(3) ne x(2) c4 s4 by blast
  then obtain r where "fst (diarize_audio ?w4 {}) = Inr r" "confidence r = 0"
    "diarizedSegments r = map (\<lambda>(i, segment). diarized_segment [0, 1] i segment) (enumerate 0 two_segments)"
    by blast
  then have "\<exists>r. fst (diarize_audio ?w4 {}) = Inr r \<and> confidence r = 0 \<and> length (diarizedSegments r) = 2"
    by (simp add: two_segments_def)
  with r1 r2 r3 r4 show ?thesis by (simp add: pipeline_failure_def)
qed

lemma cluster_speakers_length:
  assumes "\<forall>X L. fit_predict w X = Some L \<longrightarrow> length L = length X"
    and "cluster_speakers w embs = Inr labels"
  shows "length labels = length embs"
  using assms by (auto simp: cluster_speakers_def split: if_splits option.splits)

lemma nth_diarized_segments:
  assumes "i < length segs"
  shows "map (\<lambda>(i, segment). diarized_segment labels i segment) (enumerate 0 segs) ! i
       = diarized_segment labels i (segs ! i)"
  using assms by (simp add: nth_enumerate_eq)

text \<open>
  C10. On every successful non-empty run the number of speech segments equals the number
  of embeddings, which equals the number of speaker labels, so that the label of each
  diarized segment is the clusterer's output at the same index and the fallback
  \<^verbatim>\<open>else 0\<close> of line 258 is never taken; and \<^verbatim>\<open>cluster_speakers\<close> returns a list as long
  as its input in both branches. That scikit-learn's \<^verbatim>\<open>fit_predict\<close> returns one label
  per sample is the hypothesis on it.
\<close>

theorem C10_labels_aligned:
  assumes "\<forall>X L. fit_predict w X = Some L \<longrightarrow> length L = length X"
  shows "(\<forall>embs labels. cluster_speakers w embs = Inr labels \<longrightarrow> length labels = length embs)
       \<and> (\<forall>r. fst (diarize_audio w files) = Inr r \<and> diarizedSegments r \<noteq> [] \<longrightarrow>
            (\<exists>segs embs labels.
               detect_speech_segments w = Inr segs \<and>
               extract_embeddings w segs = Inr embs \<and>
               cluster_speakers w embs = Inr labels \<and>
               length embs = length segs \<and> length labels = length embs \<and>
               length (diarizedSegments r) = length segs \<and>
               (\<forall>i<length segs.
                  i < length labels \<and>
                  diarizedSegments r ! i
                    = \<lparr>dstart = seg_start (segs ! i), dend = seg_end (segs ! i),
                       speaker = ''Speaker '' @ str_int (labels ! i + 1), dtext = []\<rparr>)))"
proof (intro conjI allI impI)
  fix embs labels
  assume "cluster_speakers w embs = Inr labels"
  with assms show "length labels = length embs" by (rule cluster_speakers_length)
next
  fix r
  assume a: "fst (diarize_audio w files) = Inr r \<and> diarizedSegments r \<noteq> []"
  with diarize_audio_Inr_stages [of w files r] obtain segs embs labels where
    s: "detect_speech_segments w = Inr segs" "extract_embeddings w segs = Inr embs"
       "cluster_speakers w embs = Inr labels"
       "diarizedSegments r = map (\<lambda>(i, segment). diarized_segment labels i segment) (enumerate 0 segs)"
    by blast
  have l1: "length embs = length segs" using s(2) by (rule extract_embeddings_length)
  have l2: "length labels = length embs" using assms s(3) by (rule cluster_speakers_length)
  have l3: "length (diarizedSegments r) = length segs" using s(4) by simp
  have n: "i < length labels \<and>
        diarizedSegments r ! i
          = \<lparr>dstart = seg_start (segs ! i), dend = seg_end (segs ! i),
             speaker = ''Speaker '' @ str_int (labels ! i + 1), dtext = []\<rparr>"
    if "i < length segs" for i
  proof -
    have "i < length labels" using that l1 l2 by simp
    then show ?thesis
      unfolding s(4) nth_diarized_segments [OF that] by (simp add: diarized_segment_def)
  qed
  show "\<exists>segs embs labels.
               detect_speech_segments w = Inr segs \<and>
               extract_embeddings w segs = Inr embs \<and>
               cluster_speakers w embs = Inr labels \<and>
               length embs = length segs \<and> length labels = length embs \<and>
               length (diarizedSegments r) = length segs \<and>
               (\<forall>i<length segs.
                  i < length labels \<and>
                  diarizedSegments r ! i
                    = \<lparr>dstart = seg_start (segs ! i), dend = seg_end (segs ! i),
                       speaker = ''Speaker '' @ str_int (labels ! i + 1), dtext = []\<rparr>)"
    using s(1-3) l1 l2 l3 n by blast
qed

lemma str_int_1_2: "str_int 1 = ''1''" "str_int 2 = ''2''"
  by (simp_all add: str_int_def)

theorem C10_labels_aligned_witness:
  "cluster_speakers (run_of two_runs) two_embeddings = Inr [0, 1]
   \<and> length [0, 1 :: int] = length two_embeddings
   \<and> (\<exists>r. fst (diarize_audio (run_of two_runs) {}) = Inr r
          \<and> length (diarizedSegments r) = 2
          \<and> diarizedSegments r ! 0
              = \<lparr>dstart = 0, dend = 27 / 100, speaker = ''Speaker 1'', dtext = []\<rparr>
          \<and> diarizedSegments r ! 1
              = \<lparr>dstart = 33 / 100, dend = 69 / 100, speaker = ''Speaker 2'', dtext = []\<rparr>)"
proof -
  let ?w = "run_of two_runs"
  have h: "\<forall>X L. fit_predict ?w X = Some L \<longrightarrow> length L = length X"
    by (auto simp: run_of_def)
  have f: "fetch ?w = Fetched" "ffmpeg_ok ?w" by (simp_all add: run_of_def)
  have d: "detect_speech_segments ?w = Inr two_segments"
    by (simp add: detect_run_of segments_two_runs_example)
  have ne: "two_segments \<noteq> []" by (simp add: two_segments_def)
  have x: "extract_embeddings ?w two_segments = Inr two_embeddings"
    by (rule extract_two_segments; simp add: run_of_def)
  have c: "cluster_speakers ?w two_embeddings = Inr [0, 1]"
    by (rule cluster_two_embeddings) (simp add: run_of_def)
  define R where "R = \<lparr>diarizedSegments =
         map (\<lambda>(i, segment). diarized_segment [0, 1] i segment) (enumerate 0 two_segments),
       speakerCount = length (remdups [0, 1 :: int]),
       confidence = calculate_confidence ?w two_embeddings [0, 1],
       debug = [(''speech_segments_count'', DebugInt (length two_segments)),
                (''embeddings_count'', DebugInt (length two_embeddings)),
                (''processing_time'', DebugStr ''mock'')]\<rparr>"
  have "fst (diarize_audio ?w {}) = Inr R"
    unfolding R_def by (rule diarize_audio_succeeded [OF f d ne x c])
  moreover have "diarizedSegments R \<noteq> []"
    by (simp add: R_def two_segments_def)
  ultimately obtain r where r: "fst (diarize_audio ?w {}) = Inr r" "diarizedSegments r \<noteq> []"
    by blast
  note t = C10_labels_aligned [OF h, of "{}"]
  from t c have len: "length [0, 1 :: int] = length two_embeddings" by blast
  from t r obtain segs embs labels where
    s: "detect_speech_segments ?w = Inr segs" "extract_embeddings ?w segs = Inr embs"
       "cluster_speakers ?w embs = Inr labels" "length (diarizedSegments r) = length segs"
       "\<forall>i<length segs. i < length labels \<and>
           diarizedSegments r ! i
             = \<lparr>dstart = seg_start (segs ! i), dend = seg_end (segs ! i),
                speaker = ''Speaker '' @ str_int (labels ! i + 1), dtext = []\<rparr>"
    by blast
  have e: "segs = two_segments" using s(1) d by simp
  then have "embs = two_embeddings" using s(2) x by simp
  then have l: "labels = [0, 1]" using s(3) c by simp
  have "0 < length segs" "1 < length segs" using e by (simp_all add: two_segments_def)
  with s(5) have "diarizedSegments r ! 0
             = \<lparr>dstart = seg_start (segs ! 0), dend = seg_end (segs ! 0),
                speaker = ''Speaker '' @ str_int (labels ! 0 + 1), dtext = []\<rparr>"
    "diarizedSegments r ! 1
             = \<lparr>dstart = seg_start (segs ! 1), dend = seg_end (segs ! 1),
                speaker = ''Speaker '' @ str_int (labels ! 1 + 1), dtext = []\<rparr>"
    by blast+
  then have "diarizedSegments r ! 0
              = \<lparr>dstart = 0, dend = 27 / 100, speaker = ''Speaker 1'', dtext = []\<rparr>"
    "diarizedSegments r ! 1
              = \<lparr>dstart = 33 / 100, dend = 69 / 100, speaker = ''Speaker 2'', dtext = []\<rparr>"
    unfolding e l by (simp_all add: two_segments_def str_int_1_2)
  moreover have "length (diarizedSegments r) = 2"
    using s(4) e by (simp add: two_segments_def)
  ultimately show ?thesis using c len r(1) by blast
qed

lemma converted_name:
  "py_replace ''/tmp/tmpk3v9.wav'' ''.wav'' ''_converted.wav'' = ''/tmp/tmpk3v9_converted.wav''"
  by simp

lemma clean_up_both:
  "a \<noteq> b \<Longrightarrow> clean_up a b {b, a} = {}"
  by (auto simp: clean_up_def unlink_def)

text \<open>
  C2 (every temporary file is released by the time the invocation ends, on every path)
  does not hold of the code: the two \<^verbatim>\<open>os.unlink\<close> calls of lines 267-271 are reached
  on the normal success path only. On a recording without speech the early return of
  lines 237-244 leaves both the downloaded file and the converted file behind, and so
  does the handler of lines 284-286 on a failure; the normal success path removes both.
\<close>

theorem C2_temporary_files_left:
  "diarize_audio (run_of (replicate 20 False)) {}
     = (Inr \<lparr>diarizedSegments = [], speakerCount = 0, confidence = 0,
             debug = [(''message'', DebugStr ''No speech detected'')]\<rparr>,
        {''/tmp/tmpk3v9_converted.wav'', ''/tmp/tmpk3v9.wav''})
   \<and> diarize_audio (run_of two_runs\<lparr>fit_predict := \<lambda>X. None\<rparr>) {}
     = (Inl (HTTPException 500 (Str (HTTPException 500 (Literal ''Speaker clustering failed'')))),
        {''/tmp/tmpk3v9_converted.wav'', ''/tmp/tmpk3v9.wav''})
   \<and> snd (diarize_audio (run_of two_runs) {}) = {}"
proof -
  let ?w0 = "run_of (replicate 20 False)"
  let ?w1 = "run_of two_runs\<lparr>fit_predict := \<lambda>X. None\<rparr>"
  let ?w2 = "run_of two_runs"
  have f: "fetch ?w0 = Fetched" "ffmpeg_ok ?w0" "fetch ?w1 = Fetched" "ffmpeg_ok ?w1"
    "fetch ?w2 = Fetched" "ffmpeg_ok ?w2"
    by (simp_all add: run_of_def)
  have t: "temp_name ?w0 = ''/tmp/tmpk3v9.wav''" "temp_name ?w1 = ''/tmp/tmpk3v9.wav''"
    "temp_name ?w2 = ''/tmp/tmpk3v9.wav''"
    by (simp_all add: run_of_def)
  have d0: "detect_speech_segments ?w0 = Inr []"
    by (simp add: detect_run_of no_speech_segments)
  have d: "detect_speech_segments ?w1 = Inr two_segments" "detect_speech_segments ?w2 = Inr two_segments"
    by (simp_all add: detect_run_of segments_two_runs_example)
  have ne: "two_segments \<noteq> []" by (simp add: two_segments_def)
  have x: "extract_embeddings ?w1 two_segments = Inr two_embeddings"
    "extract_embeddings ?w2 two_segments = Inr two_embeddings"
    by (rule extract_two_segments; simp add: run_of_def)+
  have c1: "cluster_speakers ?w1 two_embeddings
      = Inl (HTTPException 500 (Literal ''Speaker clustering failed''))"
    by (simp add: cluster_speakers_def two_embeddings_def)
  have c2: "cluster_speakers ?w2 two_embeddings = Inr [0, 1]"
    by (rule cluster_two_embeddings) (simp add: run_of_def)
  have r0: "diarize_audio ?w0 {}
     = (Inr \<lparr>diarizedSegments = [], speakerCount = 0, confidence = 0,
             debug = [(''message'', DebugStr ''No speech detected'')]\<rparr>,
        {''/tmp/tmpk3v9_converted.wav'', ''/tmp/tmpk3v9.wav''})"
    unfolding diarize_audio_fetched [OF f(1,2)] t converted_name Let_def d0 by simp
  have r1: "diarize_audio ?w1 {}
     = (Inl (HTTPException 500 (Str (HTTPException 500 (Literal ''Speaker clustering failed'')))),
        {''/tmp/tmpk3v9_converted.wav'', ''/tmp/tmpk3v9.wav''})"
    unfolding diarize_audio_fetched [OF f(3,4)] t converted_name Let_def d(1)
    using ne by (simp add: x(1) c1 pipeline_failure_def)
  have r2: "snd (diarize_audio ?w2 {}) = {}"
    unfolding diarize_audio_fetched [OF f(5,6)] t converted_name Let_def d(2)
    using ne by (simp add: x(2) c2 clean_up_both)
  from r0 r1 r2 show ?thesis by blast
qed

end
